theory Spec2Isabelle
  imports Complex_Main
begin

section \<open>Values\<close>

text \<open>
  The adapter \<^verbatim>\<open>ARMA\<close> of \<^verbatim>\<open>model_lib/arma.py\<close> is embedded with explicit state
  passing. Python floats are read as exact rationals; the tensor engine, the
  convolution operator, the metric and the tuner are external and enter as the
  parameters of an environment.
\<close>

type_synonym score = rat

text \<open>A two-dimensional float tensor: one row of class probabilities per node.\<close>

type_synonym probs = "rat list list"

text \<open>
  Python exceptions. \<^verbatim>\<open>RuntimeError\<close> carries its message: PyTorch signals an exhausted
  accelerator memory, but also a size mismatch, as a \<^verbatim>\<open>RuntimeError\<close>.
\<close>

datatype exn = RuntimeError string | AttributeError | IndexError | KeyError | TypeError | ValueError

fun is_RuntimeError :: "exn \<Rightarrow> bool" where
  "is_RuntimeError (RuntimeError m) = True"
| "is_RuntimeError x = False"

text \<open>
  The hyperparameter dictionary, with the keys every configuration of the file has. The
  layer counts and the hidden-size exponent are integers: the constructor's are, and the
  tuner draws them with \<^verbatim>\<open>quniform\<close> and step 1, as floats of integer value on which
  \<^verbatim>\<open>int\<close> is the identity. \<^verbatim>\<open>dropedge_rate\<close> may be \<^verbatim>\<open>None\<close>.
\<close>

record hparams =
  num_layers :: int
  lr :: rat
  num_stacks :: int
  conv_layers :: int
  dropedge_rate :: "rat option"
  dropout_rate :: rat
  hidden :: int
  use_linear :: bool

text \<open>The constructor's \<^verbatim>\<open>info\<close> dictionary.\<close>

record info_dict =
  info_num_layers :: int
  info_lr :: rat
  info_dropedge_rate :: "rat option"
  info_dropout_rate :: rat
  info_init_hidden_size :: int
  info_use_linear :: bool
  info_n_class :: nat

text \<open>
  Layers. The first field is the identity of the layer's parameter tensors: every
  constructor call allocates new tensors, which the state's counter \<open>next_id\<close> numbers.
  \<open>Linear id in out\<close>; \<open>ARMAConv id in out num_stacks num_layers shared_weights dropout\<close>.
\<close>

datatype layer =
    Linear nat nat nat
  | ARMAConv nat nat nat int int bool rat

fun layer_id :: "layer \<Rightarrow> nat" where
  "layer_id (Linear i a b) = i"
| "layer_id (ARMAConv i a b k l w p) = i"

record adam =
  params :: "nat list"
  adam_lr :: rat
  weight_decay :: rat

text \<open>
  What the forward pass computes, as the operations applied to \<^verbatim>\<open>data.x\<close>: the
  numbers are the engine's. \<open>Edges\<close> is the pair \<^verbatim>\<open>(edge_index, edge_weight)\<close> of the
  data, \<open>DropoutAdj p training\<close> the pair \<^verbatim>\<open>dropout_adj\<close> returns.
\<close>

datatype edges = Edges | DropoutAdj rat bool

datatype tensor =
    X
  | LinearT layer tensor
  | ConvT layer tensor edges
  | ReluT tensor
  | DropoutT rat bool tensor

text \<open>The search space handed to the tuner, and the calls the tuner has received.\<close>

datatype space_entry =
    ChoiceRate "rat option list"
  | ChoiceBool "bool list"
  | QUniform int int int

datatype tuner_call =
    UpdateSearchSpace "(string \<times> space_entry) list"
  | GenerateParameters int
  | ReceiveTrialResult int hparams score

text \<open>The graph batch, as far as the adapter reads it.\<close>

record graph =
  num_features :: nat
  y :: "nat list"
  train_mask :: "bool list"
  valid_mask :: "bool list"
  test_mask :: "bool list"

text \<open>
  The outcome of one epoch's engine work (lines 168 to 178): the gradient step or the
  evaluation pass raises, or the evaluation pass yields the softmax of the logits.
\<close>

datatype epoch_outcome = TrainFault exn | EvalFault exn | Evaluated probs

text \<open>
  The external collaborators.
  \<^item> \<open>tpe_generate calls i\<close>: what \<^verbatim>\<open>generate_parameters(i)\<close> returns or raises after the
    calls \<open>calls\<close>;
  \<^item> \<open>tpe_receive calls i hp v\<close>: the exception \<^verbatim>\<open>receive_trial_result(i, hp, v)\<close> raises,
    if any;
  \<^item> \<open>to_cuda hp ps\<close>: the exception that moving the model of configuration \<open>hp\<close> with
    the parameters \<open>ps\<close> to the accelerator raises, if any (line 109);
  \<^item> \<open>run_epoch r e\<close>: the engine's outcome of epoch \<open>e\<close> of round \<open>r\<close>;
  \<^item> \<open>f1_score ys ps\<close>: line 180, the micro-averaged F1 of the labels \<open>ys\<close> against the
    row-wise arg-max of \<open>ps\<close>.
\<close>

record env =
  tpe_generate :: "tuner_call list \<Rightarrow> int \<Rightarrow> exn + hparams"
  tpe_receive :: "tuner_call list \<Rightarrow> int \<Rightarrow> hparams \<Rightarrow> score \<Rightarrow> exn option"
  to_cuda :: "hparams \<Rightarrow> nat list \<Rightarrow> exn option"
  run_epoch :: "int \<Rightarrow> nat \<Rightarrow> epoch_outcome"
  f1_score :: "nat list \<Rightarrow> probs \<Rightarrow> score"

section \<open>The adapter's state and its constructor\<close>

text \<open>
  The fields of \<^verbatim>\<open>self\<close>. A layer attribute that was never assigned is \<open>None\<close>; reading
  it raises \<^verbatim>\<open>AttributeError\<close>. \<open>training\<close> is the mode flag of \<^verbatim>\<open>torch.nn.Module\<close>.
\<close>

record arma =
  info :: info_dict
  best_score :: score
  hist_score :: "score list"
  best_preds :: "probs option"
  current_round_best_preds :: "probs option"
  self_best_valid_score :: score
  max_patience :: int
  max_epochs :: int
  name :: string
  self_hidden :: int
  self_lr :: rat
  hyperparameters :: hparams
  best_hp :: "hparams option"
  tuner :: "tuner_call list"
  input_lin :: "layer option"
  convs :: "layer list option"
  output_lin :: "layer option"
  conv1 :: "layer option"
  conv2 :: "layer option"
  optimizer :: "adam option"
  training :: bool
  next_id :: nat

definition search_space :: "info_dict \<Rightarrow> (string \<times> space_entry) list" where
  "search_space i =
     [(''dropedge_rate'', ChoiceRate [info_dropedge_rate i]),
      (''dropout_rate'', ChoiceRate [Some (info_dropout_rate i)]),
      (''num_layers'', QUniform 1 3 1),
      (''hidden'', QUniform 4 7 1),
      (''lr'', ChoiceRate [Some (5 / 1000)]),
      (''num_stacks'', QUniform 1 5 1),
      (''conv_layers'', QUniform 1 5 1),
      (''use_linear'', ChoiceBool [True, False])]"

definition initial_hyperparameters :: "info_dict \<Rightarrow> hparams" where
  "initial_hyperparameters i =
     \<lparr>num_layers = info_num_layers i,
      lr = info_lr i,
      num_stacks = 1,
      conv_layers = 1,
      dropedge_rate = info_dropedge_rate i,
      dropout_rate = 1 / 2,
      hidden = info_init_hidden_size i,
      use_linear = info_use_linear i\<rparr>"

definition ARMA_init :: "info_dict \<Rightarrow> arma" where
  "ARMA_init i =
     \<lparr>info = i,
      best_score = 0,
      hist_score = [],
      best_preds = None,
      current_round_best_preds = None,
      self_best_valid_score = 0,
      max_patience = 100,
      max_epochs = 1600,
      name = ''ARMA'',
      self_hidden = 16,
      self_lr = 5 / 1000,
      hyperparameters = initial_hyperparameters i,
      best_hp = None,
      tuner = [UpdateSearchSpace (search_space i)],
      input_lin = None,
      convs = None,
      output_lin = None,
      conv1 = None,
      conv2 = None,
      optimizer = None,
      training = True,
      next_id = 0\<rparr>"

section \<open>Building the model: \<^verbatim>\<open>init_model\<close>\<close>

text \<open>
  \<^verbatim>\<open>self.parameters()\<close>: the parameter tensors of every registered layer. PyTorch
  yields them in the order of registration; only membership is used below.
\<close>

definition parameters :: "arma \<Rightarrow> nat list" where
  "parameters s =
     map layer_id
       (case_option [] (\<lambda>l. [l]) (input_lin s) @ case_option [] id (convs s) @
        case_option [] (\<lambda>l. [l]) (output_lin s) @ case_option [] (\<lambda>l. [l]) (conv1 s) @
        case_option [] (\<lambda>l. [l]) (conv2 s))"

text \<open>
  Lines 82 to 106: the layers of the branch the configuration selects are assigned;
  the attributes of the other branches are left as they are.
\<close>

definition build_layers :: "arma \<Rightarrow> nat \<Rightarrow> nat \<Rightarrow> arma" where
  "build_layers s n_class feature_num =
     (let hp = hyperparameters s;
          hidden_size = (if 0 \<le> hidden hp then 2 ^ nat (hidden hp) else 0);
          stacks = num_stacks hp;
          depth = conv_layers hp;
          dropout = dropout_rate hp;
          layers = num_layers hp;
          i = next_id s
      in if use_linear hp then
           (let k = nat layers in
            s\<lparr>input_lin := Some (Linear i feature_num hidden_size),
              convs := Some (map (\<lambda>j. ARMAConv (i + 1 + j) hidden_size hidden_size stacks depth False dropout) [0..<k]),
              output_lin := Some (Linear (i + 1 + k) hidden_size n_class),
              next_id := i + 2 + k\<rparr>)
         else if layers = 1 then
           s\<lparr>conv1 := Some (ARMAConv i feature_num n_class stacks depth False dropout),
             next_id := i + 1\<rparr>
         else
           (let k = nat (layers - 2) in
            s\<lparr>conv1 := Some (ARMAConv i feature_num hidden_size stacks depth False dropout),
              convs := Some (map (\<lambda>j. ARMAConv (i + 1 + j) hidden_size hidden_size stacks depth False dropout) [0..<k]),
              conv2 := Some (ARMAConv (i + 1 + k) hidden_size n_class stacks depth False dropout),
              next_id := i + 2 + k\<rparr>))"

definition init_model :: "env \<Rightarrow> arma \<Rightarrow> nat \<Rightarrow> nat \<Rightarrow> (exn + unit) \<times> arma" where
  "init_model e s n_class feature_num =
     (let s1 = build_layers s n_class feature_num;
          s2 = s1\<lparr>optimizer := Some \<lparr>params = parameters s1, adam_lr = lr (hyperparameters s1),
                                     weight_decay = 5 / 10000\<rparr>\<rparr>
      in case to_cuda e (hyperparameters s2) (parameters s2) of
           Some x \<Rightarrow> (Inl x, s2)
         | None \<Rightarrow> (Inr (), s2))"

section \<open>The forward pass\<close>

text \<open>\<^verbatim>\<open>dropout_adj\<close> and \<^verbatim>\<open>F.dropout\<close> refuse a probability outside of [0, 1].\<close>

definition dropout_adj :: "rat \<Rightarrow> bool \<Rightarrow> exn + edges" where
  "dropout_adj p tr = (if p < 0 \<or> 1 < p then Inl ValueError else Inr (DropoutAdj p tr))"

definition dropout :: "tensor \<Rightarrow> rat \<Rightarrow> bool \<Rightarrow> exn + tensor" where
  "dropout x p tr = (if p < 0 \<or> 1 < p then Inl ValueError else Inr (DropoutT p tr x))"

text \<open>Lines 126 to 133: what follows the first layer when there is no early return.\<close>

definition forward_rest :: "arma \<Rightarrow> edges \<Rightarrow> tensor \<Rightarrow> exn + tensor" where
  "forward_rest s e x =
     (case dropout x (dropout_rate (hyperparameters s)) (training s) of
        Inl err \<Rightarrow> Inl err
      | Inr x1 \<Rightarrow>
         (case convs s of
            None \<Rightarrow> Inl AttributeError
          | Some cs \<Rightarrow>
             (let x2 = foldl (\<lambda>t conv. ReluT (ConvT conv t e)) x1 cs
              in if use_linear (hyperparameters s) then
                   (case output_lin s of
                      None \<Rightarrow> Inl AttributeError
                    | Some l \<Rightarrow> Inr (LinearT l x2))
                 else
                   (case conv2 s of
                      None \<Rightarrow> Inl AttributeError
                    | Some c \<Rightarrow> Inr (ConvT c x2 e)))))"

definition forward :: "arma \<Rightarrow> exn + tensor" where
  "forward s =
     (case (case dropedge_rate (hyperparameters s) of
              None \<Rightarrow> Inr Edges
            | Some p \<Rightarrow> dropout_adj p (training s)) of
        Inl err \<Rightarrow> Inl err
      | Inr e \<Rightarrow>
         if use_linear (hyperparameters s) then
           (case input_lin s of
              None \<Rightarrow> Inl AttributeError
            | Some l \<Rightarrow> forward_rest s e (ReluT (LinearT l X)))
         else
           (case conv1 s of
              None \<Rightarrow> Inl AttributeError
            | Some c \<Rightarrow>
               (let x = ReluT (ConvT c X e)
                in if num_layers (hyperparameters s) = 1 then Inr x
                   else forward_rest s e x)))"

section \<open>The training loop: \<^verbatim>\<open>train_valid\<close>\<close>

text \<open>
  Modelled from the spec: \<^verbatim>\<open>AverageMeter\<close> of \<^verbatim>\<open>utils/tools.py\<close> is not among the
  sources. The spec describes it as the running average of the validation score
  whose window is all epochs so far: \<^verbatim>\<open>update\<close> adds the score to a sum, counts it, and
  sets \<^verbatim>\<open>avg\<close> to the sum divided by the count.
\<close>

record average_meter =
  meter_val :: score
  meter_avg :: score
  meter_sum :: score
  meter_count :: nat

definition AverageMeter :: average_meter where
  "AverageMeter = \<lparr>meter_val = 0, meter_avg = 0, meter_sum = 0, meter_count = 0\<rparr>"

definition update :: "average_meter \<Rightarrow> score \<Rightarrow> average_meter" where
  "update m v =
     \<lparr>meter_val = v,
      meter_avg = (meter_sum m + v) / of_nat (meter_count m + 1),
      meter_sum = meter_sum m + v,
      meter_count = meter_count m + 1\<rparr>"

text \<open>
  Indexing with a boolean mask, \<^verbatim>\<open>xs[mask]\<close>: the entries where the mask holds; a
  mask of another length is an \<^verbatim>\<open>IndexError\<close>.
\<close>

definition mask_select :: "'a list \<Rightarrow> bool list \<Rightarrow> exn + 'a list" where
  "mask_select xs m =
     (if length xs \<noteq> length m then Inl IndexError
      else Inr (map fst (filter snd (zip xs m))))"

text \<open>
  Lines 168 to 180 of epoch \<open>ep\<close>: the training pass, the evaluation pass and the
  validation score. The result is the pair \<^verbatim>\<open>(valid_score, test_preds)\<close>.
\<close>

definition epoch_eval :: "env \<Rightarrow> graph \<Rightarrow> int \<Rightarrow> nat \<Rightarrow> arma \<Rightarrow> (exn + score \<times> probs) \<times> arma" where
  "epoch_eval e d r ep s =
     (let s1 = s\<lparr>training := True\<rparr>; s2 = s\<lparr>training := False\<rparr>
      in case forward s1 of
           Inl x \<Rightarrow> (Inl x, s1)
         | Inr logits \<Rightarrow>
            (case run_epoch e r ep of
               TrainFault x \<Rightarrow> (Inl x, s1)
             | EvalFault x \<Rightarrow> (Inl x, s2)
             | Evaluated preds \<Rightarrow>
                (case mask_select preds (valid_mask d) of
                   Inl x \<Rightarrow> (Inl x, s2)
                 | Inr valid_preds \<Rightarrow>
                    (case mask_select preds (test_mask d) of
                       Inl x \<Rightarrow> (Inl x, s2)
                     | Inr test_preds \<Rightarrow>
                        (case mask_select (y d) (valid_mask d) of
                           Inl x \<Rightarrow> (Inl x, s2)
                         | Inr labels \<Rightarrow> (Inr (f1_score e labels valid_preds, test_preds), s2))))))"

text \<open>The local variables of \<^verbatim>\<open>train_valid\<close>.\<close>

record loop_vars =
  patience :: int
  best_valid_score :: score
  valid_acc_meter :: average_meter
  epoch :: nat

text \<open>Lines 182 to 189: the meter and the patience counter.\<close>

definition patience_step :: "loop_vars \<Rightarrow> score \<Rightarrow> probs \<Rightarrow> arma \<Rightarrow> loop_vars \<times> arma" where
  "patience_step lv valid_score test_preds s =
     (let m = update (valid_acc_meter lv) valid_score
      in if meter_avg m > best_valid_score lv then
           (lv\<lparr>valid_acc_meter := m, best_valid_score := meter_avg m, patience := max_patience s\<rparr>,
            s\<lparr>current_round_best_preds := Some test_preds\<rparr>)
         else
           (lv\<lparr>valid_acc_meter := m, patience := patience lv - 1\<rparr>, s))"

text \<open>The loop over \<^verbatim>\<open>range(self.max_epochs)\<close>, with its \<^verbatim>\<open>break\<close> at patience 0.\<close>

fun epochs_loop :: "env \<Rightarrow> graph \<Rightarrow> int \<Rightarrow> nat list \<Rightarrow> loop_vars \<Rightarrow> arma \<Rightarrow> (exn + loop_vars) \<times> arma" where
  "epochs_loop e d r [] lv s = (Inr lv, s)"
| "epochs_loop e d r (ep # eps) lv s =
     (case epoch_eval e d r ep s of
        (Inl x, s1) \<Rightarrow> (Inl x, s1)
      | (Inr (valid_score, test_preds), s1) \<Rightarrow>
         (case patience_step (lv\<lparr>epoch := ep\<rparr>) valid_score test_preds s1 of
            (lv1, s2) \<Rightarrow>
              if patience lv1 = 0 then (Inr lv1, s2)
              else epochs_loop e d r eps lv1 s2))"

definition initial_vars :: "arma \<Rightarrow> loop_vars" where
  "initial_vars s =
     \<lparr>patience = max_patience s, best_valid_score = 0, valid_acc_meter = AverageMeter, epoch = 0\<rparr>"

text \<open>
  The first \<open>k\<close> iterations of the loop, with the local variables they end with; the
  whole loop is the one of \<^verbatim>\<open>range(self.max_epochs)\<close>.
\<close>

definition epochs_upto :: "env \<Rightarrow> arma \<Rightarrow> graph \<Rightarrow> int \<Rightarrow> nat \<Rightarrow> (exn + loop_vars) \<times> arma" where
  "epochs_upto e s d r k = epochs_loop e d r [0..<k] (initial_vars s) s"

definition train_valid_vars :: "env \<Rightarrow> arma \<Rightarrow> graph \<Rightarrow> int \<Rightarrow> (exn + loop_vars) \<times> arma" where
  "train_valid_vars e s d r = epochs_upto e s d r (nat (max_epochs s))"

definition train_valid :: "env \<Rightarrow> arma \<Rightarrow> graph \<Rightarrow> int \<Rightarrow> (exn + score) \<times> arma" where
  "train_valid e s d r =
     (case train_valid_vars e s d r of
        (Inl x, s1) \<Rightarrow> (Inl x, s1)
      | (Inr lv, s1) \<Rightarrow> (Inr (best_valid_score lv), s1))"




section \<open>Prediction retrieval: \<^verbatim>\<open>predict\<close>\<close>



section \<open>One round: \<^verbatim>\<open>trial\<close>\<close>

definition generate_parameters :: "env \<Rightarrow> arma \<Rightarrow> int \<Rightarrow> (exn + hparams) \<times> arma" where
  "generate_parameters e s i =
     (tpe_generate e (tuner s) i, s\<lparr>tuner := tuner s @ [GenerateParameters i]\<rparr>)"

definition receive_trial_result :: "env \<Rightarrow> arma \<Rightarrow> int \<Rightarrow> hparams \<Rightarrow> score \<Rightarrow> (exn + unit) \<times> arma" where
  "receive_trial_result e s i hp v =
     (case tpe_receive e (tuner s) i hp v of Some x \<Rightarrow> Inl x | None \<Rightarrow> Inr (),
      s\<lparr>tuner := tuner s @ [ReceiveTrialResult i hp v]\<rparr>)"

text \<open>Lines 143 and 144: the model is built and trained.\<close>

definition build_and_train :: "env \<Rightarrow> arma \<Rightarrow> graph \<Rightarrow> int \<Rightarrow> nat \<Rightarrow> nat \<Rightarrow> (exn + score) \<times> arma" where
  "build_and_train e s d round_num n_class feature_num =
     (case init_model e s n_class feature_num of
        (Inl x, s1) \<Rightarrow> (Inl x, s1)
      | (Inr u, s1) \<Rightarrow> train_valid e s1 d round_num)"

text \<open>Lines 143 to 148: the body of the \<^verbatim>\<open>try\<close>.\<close>

definition try_body :: "env \<Rightarrow> arma \<Rightarrow> graph \<Rightarrow> int \<Rightarrow> nat \<Rightarrow> nat \<Rightarrow> (exn + score) \<times> arma" where
  "try_body e s d round_num n_class feature_num =
     (case build_and_train e s d round_num n_class feature_num of
        (Inl x, s2) \<Rightarrow> (Inl x, s2)
      | (Inr val_score, s2) \<Rightarrow>
         (case (if round_num > 1
                then receive_trial_result e s2 (round_num - 1) (hyperparameters s2) val_score
                else (Inr (), s2)) of
            (Inl x, s3) \<Rightarrow> (Inl x, s3)
          | (Inr u, s3) \<Rightarrow>
             (Inr val_score,
              if val_score > best_score s3 then s3\<lparr>best_hp := Some (hyperparameters s3)\<rparr>
              else s3)))"

text \<open>Lines 150 to 154: the handler of \<^verbatim>\<open>except RuntimeError\<close>.\<close>

definition except_RuntimeError :: "env \<Rightarrow> arma \<Rightarrow> int \<Rightarrow> (exn + score) \<times> arma" where
  "except_RuntimeError e s round_num =
     (if round_num > 1 then
        (case receive_trial_result e s (round_num - 1) (hyperparameters s) 0 of
           (Inl x, s1) \<Rightarrow> (Inl x, s1)
         | (Inr u, s1) \<Rightarrow> (Inr 0, s1))
      else (Inr 0, s))"

text \<open>
  Lines 141 to 156. The body of \<^verbatim>\<open>while True\<close> ends in \<^verbatim>\<open>break\<close>, in \<^verbatim>\<open>return\<close> or in
  an exception that leaves the function, so it runs once.
\<close>

definition trial_attempt :: "env \<Rightarrow> arma \<Rightarrow> graph \<Rightarrow> int \<Rightarrow> nat \<Rightarrow> nat \<Rightarrow> (exn + score) \<times> arma" where
  "trial_attempt e s d round_num n_class feature_num =
     (case try_body e s d round_num n_class feature_num of
        (Inr val_score, s1) \<Rightarrow> (Inr val_score, s1)
      | (Inl x, s1) \<Rightarrow>
         if is_RuntimeError x then except_RuntimeError e s1 round_num
         else (Inl x, s1))"

text \<open>Lines 137 and 138: from the second round on, the tuner supplies the configuration.\<close>

definition select_config :: "env \<Rightarrow> arma \<Rightarrow> int \<Rightarrow> (exn + unit) \<times> arma" where
  "select_config e s round_num =
     (if round_num \<ge> 2 then
        (case generate_parameters e s (round_num - 1) of
           (Inl x, s1) \<Rightarrow> (Inl x, s1)
         | (Inr hp, s1) \<Rightarrow> (Inr (), s1\<lparr>hyperparameters := hp\<rparr>))
      else (Inr (), s))"

definition trial :: "env \<Rightarrow> arma \<Rightarrow> graph \<Rightarrow> int \<Rightarrow> (exn + score) \<times> arma" where
  "trial e s d round_num =
     (let n_class = info_n_class (info s); feature_num = num_features d
      in case select_config e s round_num of
           (Inl x, s1) \<Rightarrow> (Inl x, s1)
         | (Inr u, s1) \<Rightarrow> trial_attempt e s1 d round_num n_class feature_num)"

section \<open>Measures and example inputs\<close>

text \<open>The layers a computed tensor went through, and how many operations of each kind.\<close>

fun tensor_layers :: "tensor \<Rightarrow> layer list" where
  "tensor_layers X = []"
| "tensor_layers (LinearT l t) = tensor_layers t @ [l]"
| "tensor_layers (ConvT c t ed) = tensor_layers t @ [c]"
| "tensor_layers (ReluT t) = tensor_layers t"
| "tensor_layers (DropoutT p b t) = tensor_layers t"

fun n_convs :: "tensor \<Rightarrow> nat" where
  "n_convs X = 0"
| "n_convs (LinearT l t) = n_convs t"
| "n_convs (ConvT c t ed) = Suc (n_convs t)"
| "n_convs (ReluT t) = n_convs t"
| "n_convs (DropoutT p b t) = n_convs t"

fun n_linears :: "tensor \<Rightarrow> nat" where
  "n_linears X = 0"
| "n_linears (LinearT l t) = Suc (n_linears t)"
| "n_linears (ConvT c t ed) = n_linears t"
| "n_linears (ReluT t) = n_linears t"
| "n_linears (DropoutT p b t) = n_linears t"

fun n_dropouts :: "tensor \<Rightarrow> nat" where
  "n_dropouts X = 0"
| "n_dropouts (LinearT l t) = n_dropouts t"
| "n_dropouts (ConvT c t ed) = n_dropouts t"
| "n_dropouts (ReluT t) = n_dropouts t"
| "n_dropouts (DropoutT p b t) = Suc (n_dropouts t)"

text \<open>
  The class index a row of probabilities predicts, \<^verbatim>\<open>.max(1)[1]\<close> of line 180: the
  position of the first largest entry. For single-label predictions the micro-averaged
  F1 is the share of rows whose predicted index is the label.
\<close>

fun argmax_from :: "rat list \<Rightarrow> nat \<Rightarrow> nat \<Rightarrow> rat \<Rightarrow> nat" where
  "argmax_from [] i best_i best = best_i"
| "argmax_from (p # ps) i best_i best =
     (if p > best then argmax_from ps (Suc i) i p else argmax_from ps (Suc i) best_i best)"

definition class_indices :: "probs \<Rightarrow> nat list" where
  "class_indices ps = map (\<lambda>row. case row of [] \<Rightarrow> 0 | p # qs \<Rightarrow> argmax_from qs 1 0 p) ps"

definition micro_f1 :: "nat list \<Rightarrow> probs \<Rightarrow> score" where
  "micro_f1 ys ps =
     of_nat (length (filter (\<lambda>(l, c). l = c) (zip ys (class_indices ps)))) / of_nat (length ys)"

text \<open>
  A run to evaluate on: two classes, four nodes of which two validate and one is held
  out. The engine's softmax output is one matrix throughout round 1, which scores 1,
  and another from round 2 on, which scores 1/2. The tuner proposes \<open>example_hp\<close> for
  round 2 and the same with the hidden-size exponent 7 afterwards, which the
  accelerator cannot hold.
\<close>

definition example_info :: info_dict where
  "example_info =
     \<lparr>info_num_layers = 1, info_lr = 5 / 1000, info_dropedge_rate = None,
      info_dropout_rate = 1 / 2, info_init_hidden_size = 4, info_use_linear = False,
      info_n_class = 2\<rparr>"

definition example_hp :: hparams where
  "example_hp =
     \<lparr>num_layers = 2, lr = 5 / 1000, num_stacks = 1, conv_layers = 1, dropedge_rate = None,
      dropout_rate = 1 / 2, hidden = 5, use_linear = True\<rparr>"

definition example_data :: graph where
  "example_data =
     \<lparr>num_features = 3, y = [0, 1, 1, 0],
      train_mask = [True, False, False, False],
      valid_mask = [False, True, True, False],
      test_mask = [False, False, False, True]\<rparr>"

definition example_env :: env where
  "example_env =
     \<lparr>tpe_generate = (\<lambda>calls i. Inr (if i = 1 then example_hp else example_hp\<lparr>hidden := 7\<rparr>)),
      tpe_receive = (\<lambda>calls i hp v. None),
      to_cuda = (\<lambda>hp ps. if 7 \<le> hidden hp then Some (RuntimeError ''CUDA out of memory'') else None),
      run_epoch = (\<lambda>r ep. Evaluated
         (if r = 1 then [[3 / 4, 1 / 4], [1 / 4, 3 / 4], [1 / 3, 2 / 3], [1 / 4, 3 / 4]]
          else [[3 / 4, 1 / 4], [1 / 4, 3 / 4], [2 / 3, 1 / 3], [3 / 5, 2 / 5]])),
      f1_score = micro_f1\<rparr>"

text \<open>The example adapter after \<^verbatim>\<open>init_model\<close> in round 1.\<close>

definition example_model :: arma where
  "example_model =
     snd (init_model example_env (ARMA_init example_info) (info_n_class example_info)
            (num_features example_data))"

text \<open>The example adapter after each of three rounds.\<close>

definition example_round1 :: arma where
  "example_round1 = snd (trial example_env (ARMA_init example_info) example_data 1)"

definition example_round2 :: arma where
  "example_round2 = snd (trial example_env example_round1 example_data 2)"

definition example_round3 :: arma where
  "example_round3 = snd (trial example_env example_round2 example_data 3)"

text \<open>The example adapter after \<^verbatim>\<open>init_model\<close> in round 2.\<close>

definition example_model2 :: arma where
  "example_model2 =
     snd (init_model example_env (snd (select_config example_env example_round1 2))
            (info_n_class example_info) (num_features example_data))"

text \<open>
  Two runs that fail in the first epoch: an engine that reports a size mismatch, which
  PyTorch raises as a \<^verbatim>\<open>RuntimeError\<close>, and a test mask of the wrong length.
\<close>

definition mismatch_env :: env where
  "mismatch_env = example_env\<lparr>run_epoch := (\<lambda>r ep. TrainFault (RuntimeError ''size mismatch''))\<rparr>"

definition short_mask_data :: graph where
  "short_mask_data = example_data\<lparr>test_mask := [True]\<rparr>"

section \<open>The states an adapter goes through\<close>

inductive reachable :: "env \<Rightarrow> arma \<Rightarrow> bool" for e :: env where
  constructed: "reachable e (ARMA_init i)"
| after_trial: "reachable e s \<Longrightarrow> reachable e (snd (trial e s d r))"
| after_init_model: "reachable e s \<Longrightarrow> reachable e (snd (init_model e s n f))"
| after_train_valid: "reachable e s \<Longrightarrow> reachable e (snd (train_valid e s d r))"

section \<open>The loop, epoch by epoch\<close>

lemma forward_rest_ignores:
  "forward_rest (s\<lparr>current_round_best_preds := p\<rparr>) ed x = forward_rest s ed x"
  by (simp add: forward_rest_def cong: sum.case_cong option.case_cong if_cong)

lemma forward_ignores_preds:
  "forward (s\<lparr>current_round_best_preds := p\<rparr>) = forward s"
  by (simp add: forward_def forward_rest_ignores cong: sum.case_cong option.case_cong if_cong)

lemma forward_ignores_preds2:
  "forward (s\<lparr>current_round_best_preds := p, training := b\<rparr>) = forward (s\<lparr>training := b\<rparr>)"
  by (simp add: forward_def forward_rest_def cong: sum.case_cong option.case_cong if_cong)

lemma epoch_eval_fst_preds:
  "fst (epoch_eval e d r ep (s\<lparr>current_round_best_preds := p\<rparr>)) = fst (epoch_eval e d r ep s)"
  unfolding epoch_eval_def Let_def
  by (auto simp: forward_ignores_preds2 split: sum.splits epoch_outcome.splits)

lemma forward_training_upd:
  "forward (s\<lparr>training := b, training := c\<rparr>) = forward (s\<lparr>training := c\<rparr>)"
  by simp

lemma epoch_eval_fst_training:
  "fst (epoch_eval e d r ep (s\<lparr>training := b\<rparr>)) = fst (epoch_eval e d r ep s)"
  unfolding epoch_eval_def Let_def
  by (auto split: sum.splits epoch_outcome.splits)

lemma epoch_eval_snd:
  "\<exists>b. snd (epoch_eval e d r ep s) = s\<lparr>training := b\<rparr>"
  unfolding epoch_eval_def Let_def
  by (auto split: sum.splits epoch_outcome.splits)

lemma epoch_eval_Inr_snd:
  "epoch_eval e d r ep s = (Inr vt, s1) \<Longrightarrow> s1 = s\<lparr>training := False\<rparr>"
  unfolding epoch_eval_def Let_def
  by (auto split: sum.splits epoch_outcome.splits)

lemma patience_step_snd:
  "\<exists>p. snd (patience_step lv v tp s) = s\<lparr>current_round_best_preds := p\<rparr>"
  unfolding patience_step_def Let_def
  apply (auto)
  apply (rule exI[of _ "current_round_best_preds s"]) by simp

lemma epochs_loop_snd:
  "\<exists>p b. snd (epochs_loop e d r eps lv s) = s\<lparr>current_round_best_preds := p, training := b\<rparr>"
proof (induction eps arbitrary: lv s)
  case Nil
  show ?case
    by (rule exI[of _ "current_round_best_preds s"], rule exI[of _ "training s"]) simp
next
  case (Cons ep eps)
  obtain b where b: "snd (epoch_eval e d r ep s) = s\<lparr>training := b\<rparr>"
    using epoch_eval_snd by blast
  show ?case
  proof (cases "epoch_eval e d r ep s")
    case (Pair res s1)
    with b have s1: "s1 = s\<lparr>training := b\<rparr>" by simp
    show ?thesis
    proof (cases res)
      case (Inl x)
      with Pair s1 show ?thesis
        by (auto intro!: exI[of _ "current_round_best_preds s"] exI[of _ b])
    next
      case (Inr vt)
      obtain v tp where vt: "vt = (v, tp)" by (cases vt)
      obtain lv1 s2 where ps: "patience_step (lv\<lparr>epoch := ep\<rparr>) v tp s1 = (lv1, s2)"
        by (cases "patience_step (lv\<lparr>epoch := ep\<rparr>) v tp s1")
      obtain p where p: "s2 = s1\<lparr>current_round_best_preds := p\<rparr>"
        using patience_step_snd[of "lv\<lparr>epoch := ep\<rparr>" v tp s1] ps by auto
      show ?thesis
      proof (cases "patience lv1 = 0")
        case True
        with Pair Inr vt ps p s1 show ?thesis
          by (auto intro!: exI[of _ p] exI[of _ b])
      next
        case False
        obtain p' b' where "snd (epochs_loop e d r eps lv1 s2) = s2\<lparr>current_round_best_preds := p', training := b'\<rparr>"
          using Cons.IH by blast
        with Pair Inr vt ps p s1 False show ?thesis
          by (auto intro!: exI[of _ p'] exI[of _ b'])
      qed
    qed
  qed
qed


lemma epoch_eval_fst_upd:
  "fst (epoch_eval e d r ep (s\<lparr>current_round_best_preds := p, training := b\<rparr>)) = fst (epoch_eval e d r ep s)"
  using epoch_eval_fst_training[where s="s\<lparr>current_round_best_preds := p\<rparr>" and b=b and e=e and d=d and r=r and ep=ep]
  by (simp add: epoch_eval_fst_preds)

lemma epochs_loop_append:
  "epochs_loop e d r (xs @ ys) lv s =
     (case epochs_loop e d r xs lv s of
        (Inl x, s1) \<Rightarrow> (Inl x, s1)
      | (Inr lv1, s1) \<Rightarrow>
          if xs \<noteq> [] \<and> patience lv1 = 0 then (Inr lv1, s1)
          else epochs_loop e d r ys lv1 s1)"
proof (induction xs arbitrary: lv s)
  case Nil
  show ?case by simp
next
  case (Cons ep xs)
  show ?case
  proof (cases "epoch_eval e d r ep s")
    case (Pair res s1)
    show ?thesis
    proof (cases res)
      case (Inl x)
      with Pair show ?thesis by simp
    next
      case (Inr vt)
      obtain v tp where vt: "vt = (v, tp)" by (cases vt)
      obtain lv1 s2 where ps: "patience_step (lv\<lparr>epoch := ep\<rparr>) v tp s1 = (lv1, s2)"
        by (cases "patience_step (lv\<lparr>epoch := ep\<rparr>) v tp s1")
      show ?thesis
      proof (cases "patience lv1 = 0")
        case True
        with Pair Inr vt ps show ?thesis by simp
      next
        case False
        show ?thesis
        proof (cases "xs = []")
          case True
          with Pair Inr vt ps False show ?thesis by simp
        next
          case nonempty: False
          with Pair Inr vt ps False Cons.IH[of lv1 s2] show ?thesis
            by (auto split: prod.splits sum.splits)
        qed
      qed
    qed
  qed
qed

lemma epochs_upto_Suc:
  "epochs_upto e s d r (Suc k) =
     (case epochs_upto e s d r k of
        (Inl x, s1) \<Rightarrow> (Inl x, s1)
      | (Inr lv1, s1) \<Rightarrow>
          if 0 < k \<and> patience lv1 = 0 then (Inr lv1, s1)
          else (case epoch_eval e d r k s1 of
                  (Inl x, s2) \<Rightarrow> (Inl x, s2)
                | (Inr (v, tp), s2) \<Rightarrow>
                    (case patience_step (lv1\<lparr>epoch := k\<rparr>) v tp s2 of
                       (lv2, s3) \<Rightarrow> (Inr lv2, s3))))"
proof -
  have one: "\<And>lv1 s1. epochs_loop e d r [k] lv1 s1 =
      (case epoch_eval e d r k s1 of
         (Inl x, s2) \<Rightarrow> (Inl x, s2)
       | (Inr (v, tp), s2) \<Rightarrow>
           (case patience_step (lv1\<lparr>epoch := k\<rparr>) v tp s2 of (lv2, s3) \<Rightarrow> (Inr lv2, s3)))"
    by (auto split: prod.splits sum.splits)
  have ne: "([0..<k] \<noteq> []) = (0 < k)" by simp
  have "epochs_upto e s d r (Suc k) = epochs_loop e d r ([0..<k] @ [k]) (initial_vars s) s"
    by (simp add: epochs_upto_def)
  also have "\<dots> = (case epochs_upto e s d r k of
        (Inl x, s1) \<Rightarrow> (Inl x, s1)
      | (Inr lv1, s1) \<Rightarrow>
          if 0 < k \<and> patience lv1 = 0 then (Inr lv1, s1)
          else epochs_loop e d r [k] lv1 s1)"
    unfolding epochs_loop_append ne epochs_upto_def ..
  finally show ?thesis
    unfolding one .
qed



lemma epochs_upto_0: "epochs_upto e s d r 0 = (Inr (initial_vars s), s)"
  by (simp add: epochs_upto_def)

lemma epochs_upto_state:
  "\<exists>p b. snd (epochs_upto e s d r k) = s\<lparr>current_round_best_preds := p, training := b\<rparr>"
  unfolding epochs_upto_def by (rule epochs_loop_snd)

lemma epoch_eval_after:
  assumes "epochs_upto e s d r k = (res, s0)"
  shows "fst (epoch_eval e d r ep s0) = fst (epoch_eval e d r ep s)"
proof -
  obtain p b where "s0 = s\<lparr>current_round_best_preds := p, training := b\<rparr>"
    using epochs_upto_state[of e s d r k] assms by auto
  then show ?thesis by (simp add: epoch_eval_fst_upd)
qed


lemma epochs_upto_Suc_live:
  assumes run: "epochs_upto e s d r k = (Inr lv0, s0)"
    and live: "k = 0 \<or> patience lv0 \<noteq> 0"
  shows "epochs_upto e s d r (Suc k) =
     (case fst (epoch_eval e d r k s) of
        Inl x \<Rightarrow> (Inl x, snd (epoch_eval e d r k s0))
      | Inr (v, tp) \<Rightarrow>
          (case patience_step (lv0\<lparr>epoch := k\<rparr>) v tp (s0\<lparr>training := False\<rparr>) of
             (lv2, s3) \<Rightarrow> (Inr lv2, s3)))"
proof -
  have same: "fst (epoch_eval e d r k s0) = fst (epoch_eval e d r k s)"
    using run by (rule epoch_eval_after)
  obtain res s2 where ev: "epoch_eval e d r k s0 = (res, s2)"
    by (cases "epoch_eval e d r k s0")
  have res: "fst (epoch_eval e d r k s) = res" using same ev by simp
  show ?thesis
  proof (cases res)
    case (Inl x)
    with run live ev res show ?thesis
      by (auto simp: epochs_upto_Suc)
  next
    case (Inr vt)
    obtain v tp where vt: "vt = (v, tp)" by (cases vt)
    have s2: "s2 = s0\<lparr>training := False\<rparr>"
      using ev Inr by (auto dest: epoch_eval_Inr_snd)
    with run live ev res Inr vt show ?thesis
      by (auto simp: epochs_upto_Suc split: prod.splits)
  qed
qed

lemma epochs_upto_Suc_stopped:
  assumes run: "epochs_upto e s d r k = (Inr lv0, s0)"
    and stopped: "0 < k" "patience lv0 = 0"
  shows "epochs_upto e s d r (Suc k) = (Inr lv0, s0)"
  using assms by (simp add: epochs_upto_Suc)














lemma epochs_upto_stopped:
  assumes "epochs_upto e s d r k = (Inr lv, s1)" and "0 < k" and "patience lv = 0" and "k \<le> n"
  shows "epochs_upto e s d r n = (Inr lv, s1)"
  using assms(4)
proof (induction n)
  case 0
  with assms(2) show ?case by simp
next
  case (Suc n)
  show ?case
  proof (cases "k = Suc n")
    case True
    with assms(1) show ?thesis by simp
  next
    case False
    with Suc have run: "epochs_upto e s d r n = (Inr lv, s1)" and "0 < n"
      using assms(2) by auto
    then show ?thesis
      using assms(3) by (simp add: epochs_upto_Suc_stopped)
  qed
qed

lemma constant_run_prefix:
  assumes ev: "\<And>k. fst (epoch_eval e d r k s) = Inr (v, tp)"
    and v: "0 < v" and mp: "0 < max_patience s"
  shows "j \<le> nat (max_patience s) \<Longrightarrow>
     epochs_upto e s d r (Suc j) =
       (Inr \<lparr>patience = max_patience s - int j, best_valid_score = v,
             valid_acc_meter = \<lparr>meter_val = v, meter_avg = v,
                                 meter_sum = of_nat (Suc j) * v, meter_count = Suc j\<rparr>,
             epoch = j\<rparr>,
        s\<lparr>current_round_best_preds := Some tp, training := False\<rparr>)"
proof (induction j)
  case 0
  have run0: "epochs_upto e s d r 0 = (Inr (initial_vars s), s)"
    by (rule epochs_upto_0)
  have "epochs_upto e s d r (Suc 0) =
     (case patience_step ((initial_vars s)\<lparr>epoch := 0\<rparr>) v tp (s\<lparr>training := False\<rparr>) of
        (lv2, s3) \<Rightarrow> (Inr lv2, s3))"
    using epochs_upto_Suc_live[OF run0] ev[of 0] by simp
  then show ?case
    using v by (simp add: patience_step_def initial_vars_def AverageMeter_def update_def Let_def)
next
  case (Suc j)
  let ?lv = "\<lparr>patience = max_patience s - int j, best_valid_score = v,
             valid_acc_meter = \<lparr>meter_val = v, meter_avg = v,
                                 meter_sum = of_nat (Suc j) * v, meter_count = Suc j\<rparr>,
             epoch = j\<rparr>"
  let ?s = "s\<lparr>current_round_best_preds := Some tp, training := False\<rparr>"
  have run: "epochs_upto e s d r (Suc j) = (Inr ?lv, ?s)"
    using Suc by simp
  have live: "Suc j = 0 \<or> patience ?lv \<noteq> 0"
    using Suc.prems by simp
  have avg: "(of_nat (Suc j) * v + v) / of_nat (Suc (Suc j)) = v"
  proof -
    have "of_nat (Suc j) * v + v = of_nat (Suc (Suc j)) * v"
      by (simp add: algebra_simps)
    then show ?thesis by simp
  qed
  have "epochs_upto e s d r (Suc (Suc j)) =
     (case patience_step (?lv\<lparr>epoch := Suc j\<rparr>) v tp (?s\<lparr>training := False\<rparr>) of
        (lv2, s3) \<Rightarrow> (Inr lv2, s3))"
    using epochs_upto_Suc_live[OF run live] ev[of "Suc j"] by simp
  then show ?case
    using avg
    by (simp add: patience_step_def update_def Let_def algebra_simps)
qed

lemma constant_run:
  assumes ev: "\<And>k. fst (epoch_eval e d r k s) = Inr (v, tp)"
    and v: "0 < v" and mp: "0 < max_patience s" and ne: "max_patience s < max_epochs s"
  shows "train_valid_vars e s d r =
       (Inr \<lparr>patience = 0, best_valid_score = v,
             valid_acc_meter = \<lparr>meter_val = v, meter_avg = v,
                                 meter_sum = of_nat (Suc (nat (max_patience s))) * v,
                                 meter_count = Suc (nat (max_patience s))\<rparr>,
             epoch = nat (max_patience s)\<rparr>,
        s\<lparr>current_round_best_preds := Some tp, training := False\<rparr>)"
proof -
  have run: "epochs_upto e s d r (Suc (nat (max_patience s))) =
       (Inr \<lparr>patience = 0, best_valid_score = v,
             valid_acc_meter = \<lparr>meter_val = v, meter_avg = v,
                                 meter_sum = of_nat (Suc (nat (max_patience s))) * v,
                                 meter_count = Suc (nat (max_patience s))\<rparr>,
             epoch = nat (max_patience s)\<rparr>,
        s\<lparr>current_round_best_preds := Some tp, training := False\<rparr>)"
    using constant_run_prefix[OF ev v mp, of "nat (max_patience s)"] mp by simp
  have le: "Suc (nat (max_patience s)) \<le> nat (max_epochs s)"
    using mp ne by simp
  show ?thesis
    unfolding train_valid_vars_def
    by (rule epochs_upto_stopped[OF run _ _ le]) simp_all
qed




section \<open>The example run\<close>

lemma example_model_eq:
  "example_model =
     (ARMA_init example_info)
       \<lparr>conv1 := Some (ARMAConv 0 3 2 1 1 False (1 / 2)),
        optimizer := Some \<lparr>params = [0], adam_lr = 5 / 1000, weight_decay = 5 / 10000\<rparr>,
        next_id := 1\<rparr>"
  by (simp add: example_model_def init_model_def build_layers_def Let_def ARMA_init_def
      example_env_def initial_hyperparameters_def example_info_def example_data_def parameters_def)

lemma example_model_fields:
  "max_patience example_model = 100" "max_epochs example_model = 1600"
  "hyperparameters example_model = initial_hyperparameters example_info"
  "best_score example_model = 0" "current_round_best_preds example_model = None"
  by (simp_all add: example_model_eq ARMA_init_def)

lemma example_forward:
  "forward (example_model\<lparr>training := b\<rparr>) = Inr (ReluT (ConvT (ARMAConv 0 3 2 1 1 False (1 / 2)) X Edges))"
  by (simp add: example_model_eq ARMA_init_def forward_def initial_hyperparameters_def example_info_def)

lemma example_epoch_round1:
  "fst (epoch_eval example_env example_data 1 k example_model) = Inr (1, [[1 / 4, 3 / 4]])"
  by (simp add: epoch_eval_def Let_def example_forward example_env_def example_data_def
      mask_select_def micro_f1_def class_indices_def)

lemma example_train_valid_vars:
  "train_valid_vars example_env example_model example_data 1 =
     (Inr \<lparr>patience = 0, best_valid_score = 1,
           valid_acc_meter = \<lparr>meter_val = 1, meter_avg = 1, meter_sum = 101, meter_count = 101\<rparr>,
           epoch = 100\<rparr>,
      example_model\<lparr>current_round_best_preds := Some [[1 / 4, 3 / 4]], training := False\<rparr>)"
  using constant_run[of example_env example_data 1 example_model 1 "[[1 / 4, 3 / 4]]", OF example_epoch_round1]
  by (simp add: example_model_fields)

section \<open>What each method leaves unchanged\<close>

lemma build_layers_frame:
  "best_score (build_layers s n f) = best_score s"
  "best_hp (build_layers s n f) = best_hp s"
  "best_preds (build_layers s n f) = best_preds s"
  "current_round_best_preds (build_layers s n f) = current_round_best_preds s"
  "tuner (build_layers s n f) = tuner s"
  "hyperparameters (build_layers s n f) = hyperparameters s"
  "info (build_layers s n f) = info s"
  "max_patience (build_layers s n f) = max_patience s"
  "max_epochs (build_layers s n f) = max_epochs s"
  by (simp_all add: build_layers_def Let_def)

lemma init_model_snd:
  "snd (init_model e s n f) =
     (build_layers s n f)\<lparr>optimizer := Some \<lparr>params = parameters (build_layers s n f),
        adam_lr = lr (hyperparameters s), weight_decay = 5 / 10000\<rparr>\<rparr>"
  by (simp add: init_model_def Let_def build_layers_frame split: option.splits)

lemma parameters_optimizer: "parameters (s\<lparr>optimizer := opt\<rparr>) = parameters s"
  by (simp add: parameters_def)

lemma init_model_fst:
  "fst (init_model e s n f) =
     (case to_cuda e (hyperparameters s) (parameters (build_layers s n f)) of
        Some x \<Rightarrow> Inl x | None \<Rightarrow> Inr ())"
  by (simp add: init_model_def Let_def build_layers_frame parameters_optimizer split: option.splits)

lemma init_model_frame:
  "best_score (snd (init_model e s n f)) = best_score s"
  "best_hp (snd (init_model e s n f)) = best_hp s"
  "best_preds (snd (init_model e s n f)) = best_preds s"
  "current_round_best_preds (snd (init_model e s n f)) = current_round_best_preds s"
  "tuner (snd (init_model e s n f)) = tuner s"
  "hyperparameters (snd (init_model e s n f)) = hyperparameters s"
  "info (snd (init_model e s n f)) = info s"
  "max_patience (snd (init_model e s n f)) = max_patience s"
  "max_epochs (snd (init_model e s n f)) = max_epochs s"
  "next_id (snd (init_model e s n f)) = next_id (build_layers s n f)"
  by (simp_all add: init_model_snd build_layers_frame)

lemma train_valid_snd_vars: "snd (train_valid e s d r) = snd (train_valid_vars e s d r)"
  by (simp add: train_valid_def split: prod.splits sum.splits)

lemma train_valid_snd:
  "\<exists>p b. snd (train_valid e s d r) = s\<lparr>current_round_best_preds := p, training := b\<rparr>"
  unfolding train_valid_snd_vars train_valid_vars_def by (rule epochs_upto_state)

lemma train_valid_frame:
  "best_score (snd (train_valid e s d r)) = best_score s"
  "best_hp (snd (train_valid e s d r)) = best_hp s"
  "best_preds (snd (train_valid e s d r)) = best_preds s"
  "tuner (snd (train_valid e s d r)) = tuner s"
  "hyperparameters (snd (train_valid e s d r)) = hyperparameters s"
  "info (snd (train_valid e s d r)) = info s"
  "max_patience (snd (train_valid e s d r)) = max_patience s"
  "max_epochs (snd (train_valid e s d r)) = max_epochs s"
  "next_id (snd (train_valid e s d r)) = next_id s"
  "optimizer (snd (train_valid e s d r)) = optimizer s"
  "parameters (snd (train_valid e s d r)) = parameters s"
  using train_valid_snd[of e s d r] by (auto simp: parameters_def)

lemma build_and_train_frame:
  "best_score (snd (build_and_train e s d r n f)) = best_score s"
  "best_hp (snd (build_and_train e s d r n f)) = best_hp s"
  "best_preds (snd (build_and_train e s d r n f)) = best_preds s"
  "tuner (snd (build_and_train e s d r n f)) = tuner s"
  "hyperparameters (snd (build_and_train e s d r n f)) = hyperparameters s"
  "info (snd (build_and_train e s d r n f)) = info s"
  "max_patience (snd (build_and_train e s d r n f)) = max_patience s"
  "max_epochs (snd (build_and_train e s d r n f)) = max_epochs s"
  "next_id (snd (build_and_train e s d r n f)) = next_id (build_layers s n f)"
proof -
  have "snd (build_and_train e s d r n f) = snd (init_model e s n f) \<or>
        snd (build_and_train e s d r n f) = snd (train_valid e (snd (init_model e s n f)) d r)"
    by (auto simp: build_and_train_def split: prod.splits sum.splits)
  then show
    "best_score (snd (build_and_train e s d r n f)) = best_score s"
    "best_hp (snd (build_and_train e s d r n f)) = best_hp s"
    "best_preds (snd (build_and_train e s d r n f)) = best_preds s"
    "tuner (snd (build_and_train e s d r n f)) = tuner s"
    "hyperparameters (snd (build_and_train e s d r n f)) = hyperparameters s"
    "info (snd (build_and_train e s d r n f)) = info s"
    "max_patience (snd (build_and_train e s d r n f)) = max_patience s"
    "max_epochs (snd (build_and_train e s d r n f)) = max_epochs s"
    "next_id (snd (build_and_train e s d r n f)) = next_id (build_layers s n f)"
    by (auto simp: train_valid_frame init_model_frame)
qed

lemma receive_trial_result_snd:
  "snd (receive_trial_result e s i hp v) = s\<lparr>tuner := tuner s @ [ReceiveTrialResult i hp v]\<rparr>"
  by (simp add: receive_trial_result_def)

lemma try_body_frame:
  "best_score (snd (try_body e s d r n f)) = best_score s"
  "best_preds (snd (try_body e s d r n f)) = best_preds s"
  "hyperparameters (snd (try_body e s d r n f)) = hyperparameters s"
  "info (snd (try_body e s d r n f)) = info s"
  "max_patience (snd (try_body e s d r n f)) = max_patience s"
  "max_epochs (snd (try_body e s d r n f)) = max_epochs s"
  "next_id (snd (try_body e s d r n f)) = next_id (build_layers s n f)"
proof -
  obtain res s2 where bt: "build_and_train e s d r n f = (res, s2)"
    by (cases "build_and_train e s d r n f")
  have fr: "best_score s2 = best_score s" "best_preds s2 = best_preds s"
    "hyperparameters s2 = hyperparameters s" "info s2 = info s"
    "max_patience s2 = max_patience s" "max_epochs s2 = max_epochs s"
    "next_id s2 = next_id (build_layers s n f)"
    using build_and_train_frame[of e s d r n f] bt by simp_all
  show
    "best_score (snd (try_body e s d r n f)) = best_score s"
    "best_preds (snd (try_body e s d r n f)) = best_preds s"
    "hyperparameters (snd (try_body e s d r n f)) = hyperparameters s"
    "info (snd (try_body e s d r n f)) = info s"
    "max_patience (snd (try_body e s d r n f)) = max_patience s"
    "max_epochs (snd (try_body e s d r n f)) = max_epochs s"
    "next_id (snd (try_body e s d r n f)) = next_id (build_layers s n f)"
    using fr bt
    by (auto simp: try_body_def receive_trial_result_def split: sum.splits prod.splits if_splits option.splits)
qed

lemma except_RuntimeError_snd:
  "snd (except_RuntimeError e s r) =
     (if r > 1 then s\<lparr>tuner := tuner s @ [ReceiveTrialResult (r - 1) (hyperparameters s) 0]\<rparr> else s)"
  by (auto simp: except_RuntimeError_def receive_trial_result_def split: option.splits)

lemma trial_attempt_frame:
  "best_score (snd (trial_attempt e s d r n f)) = best_score s"
  "best_preds (snd (trial_attempt e s d r n f)) = best_preds s"
  "hyperparameters (snd (trial_attempt e s d r n f)) = hyperparameters s"
  "info (snd (trial_attempt e s d r n f)) = info s"
  "max_patience (snd (trial_attempt e s d r n f)) = max_patience s"
  "max_epochs (snd (trial_attempt e s d r n f)) = max_epochs s"
  "next_id (snd (trial_attempt e s d r n f)) = next_id (build_layers s n f)"
proof -
  have "snd (trial_attempt e s d r n f) = snd (try_body e s d r n f) \<or>
        snd (trial_attempt e s d r n f) = snd (except_RuntimeError e (snd (try_body e s d r n f)) r)"
    by (auto simp: trial_attempt_def split: prod.splits sum.splits)
  then show
    "best_score (snd (trial_attempt e s d r n f)) = best_score s"
    "best_preds (snd (trial_attempt e s d r n f)) = best_preds s"
    "hyperparameters (snd (trial_attempt e s d r n f)) = hyperparameters s"
    "info (snd (trial_attempt e s d r n f)) = info s"
    "max_patience (snd (trial_attempt e s d r n f)) = max_patience s"
    "max_epochs (snd (trial_attempt e s d r n f)) = max_epochs s"
    "next_id (snd (trial_attempt e s d r n f)) = next_id (build_layers s n f)"
    by (auto simp: except_RuntimeError_snd try_body_frame)
qed

lemma select_config_frame:
  "best_score (snd (select_config e s r)) = best_score s"
  "best_preds (snd (select_config e s r)) = best_preds s"
  "best_hp (snd (select_config e s r)) = best_hp s"
  "info (snd (select_config e s r)) = info s"
  "max_patience (snd (select_config e s r)) = max_patience s"
  "max_epochs (snd (select_config e s r)) = max_epochs s"
  by (auto simp: select_config_def generate_parameters_def split: sum.splits)

lemma trial_frame:
  "best_score (snd (trial e s d r)) = best_score s"
  "best_preds (snd (trial e s d r)) = best_preds s"
  "info (snd (trial e s d r)) = info s"
  "max_patience (snd (trial e s d r)) = max_patience s"
  "max_epochs (snd (trial e s d r)) = max_epochs s"
proof -
  obtain res s0 where sel: "select_config e s r = (res, s0)"
    by (cases "select_config e s r")
  have fr: "best_score s0 = best_score s" "best_preds s0 = best_preds s" "info s0 = info s"
    "max_patience s0 = max_patience s" "max_epochs s0 = max_epochs s"
    using select_config_frame[of e s r] sel by simp_all
  show "best_score (snd (trial e s d r)) = best_score s"
    "best_preds (snd (trial e s d r)) = best_preds s"
    "info (snd (trial e s d r)) = info s"
    "max_patience (snd (trial e s d r)) = max_patience s"
    "max_epochs (snd (trial e s d r)) = max_epochs s"
    using sel fr by (auto simp: trial_def Let_def trial_attempt_frame split: sum.splits)
qed

lemma trial_success:
  assumes sel: "select_config e s r = (Inr (), s0)"
    and im: "init_model e s0 (info_n_class (info s)) (num_features d) = (Inr (), s1)"
    and tv: "train_valid e s1 d r = (Inr v, s2)"
    and rc: "1 < r \<Longrightarrow> tpe_receive e (tuner s2) (r - 1) (hyperparameters s2) v = None"
  shows "trial e s d r =
     (Inr v,
      if 1 < r then
        (if best_score s2 < v
         then s2\<lparr>tuner := tuner s2 @ [ReceiveTrialResult (r - 1) (hyperparameters s2) v],
                 best_hp := Some (hyperparameters s2)\<rparr>
         else s2\<lparr>tuner := tuner s2 @ [ReceiveTrialResult (r - 1) (hyperparameters s2) v]\<rparr>)
      else (if best_score s2 < v then s2\<lparr>best_hp := Some (hyperparameters s2)\<rparr> else s2))"
proof (cases "1 < r")
  case True
  with sel im tv rc[OF True] show ?thesis
    by (simp add: trial_def Let_def trial_attempt_def try_body_def build_and_train_def
        receive_trial_result_def)
next
  case False
  with sel im tv show ?thesis
    by (simp add: trial_def Let_def trial_attempt_def try_body_def build_and_train_def)
qed

lemma epoch_eval_ok:
  assumes "forward (s\<lparr>training := True\<rparr>) = Inr t"
    and "run_epoch e r k = Evaluated preds"
    and "mask_select preds (valid_mask d) = Inr vp"
    and "mask_select preds (test_mask d) = Inr tp"
    and "mask_select (y d) (valid_mask d) = Inr ls"
  shows "fst (epoch_eval e d r k s) = Inr (f1_score e ls vp, tp)"
  using assms by (simp add: epoch_eval_def Let_def)

lemma example_init_round1:
  "init_model example_env (ARMA_init example_info) (info_n_class (info (ARMA_init example_info)))
     (num_features example_data) = (Inr (), example_model)"
proof -
  have "fst (init_model example_env (ARMA_init example_info) 2 3) = Inr ()"
    by (simp add: init_model_fst ARMA_init_def example_env_def initial_hyperparameters_def example_info_def)
  moreover have "info_n_class (info (ARMA_init example_info)) = 2" "num_features example_data = 3"
    "info_n_class example_info = 2"
    by (simp_all add: ARMA_init_def example_info_def example_data_def)
  ultimately show ?thesis
    by (simp add: example_model_def prod_eq_iff)
qed

lemma example_train_valid_round1:
  "train_valid example_env example_model example_data 1 =
     (Inr 1, example_model\<lparr>current_round_best_preds := Some [[1 / 4, 3 / 4]], training := False\<rparr>)"
  by (simp add: train_valid_def example_train_valid_vars)

lemma example_trial_round1:
  "trial example_env (ARMA_init example_info) example_data 1 =
     (Inr 1, example_model\<lparr>current_round_best_preds := Some [[1 / 4, 3 / 4]], training := False,
                            best_hp := Some (initial_hyperparameters example_info)\<rparr>)"
proof -
  have sel: "select_config example_env (ARMA_init example_info) 1 = (Inr (), ARMA_init example_info)"
    by (simp add: select_config_def)
  show ?thesis
    using trial_success[OF sel example_init_round1 example_train_valid_round1]
    by (simp add: example_model_fields)
qed

lemma example_round1_eq:
  "example_round1 =
     example_model\<lparr>current_round_best_preds := Some [[1 / 4, 3 / 4]], training := False,
                   best_hp := Some (initial_hyperparameters example_info)\<rparr>"
  by (simp add: example_round1_def example_trial_round1)

lemma example_round1_fields:
  "tuner example_round1 = [UpdateSearchSpace (search_space example_info)]"
  "info example_round1 = example_info"
  "next_id example_round1 = 1"
  "best_score example_round1 = 0"
  "best_preds example_round1 = None"
  "best_hp example_round1 = Some (initial_hyperparameters example_info)"
  "max_patience example_round1 = 100"
  "max_epochs example_round1 = 1600"
  "conv1 example_round1 = Some (ARMAConv 0 3 2 1 1 False (1 / 2))"
  "conv2 example_round1 = None"
  "current_round_best_preds example_round1 = Some [[1 / 4, 3 / 4]]"
  by (simp_all add: example_round1_eq example_model_eq ARMA_init_def)

lemma example_select_round2:
  "select_config example_env example_round1 2 =
     (Inr (), example_round1\<lparr>tuner := tuner example_round1 @ [GenerateParameters 1],
                             hyperparameters := example_hp\<rparr>)"
  by (simp add: select_config_def generate_parameters_def example_env_def)

lemma example_model2_eq:
  "example_model2 =
     example_round1
       \<lparr>hyperparameters := example_hp,
        tuner := [UpdateSearchSpace (search_space example_info), GenerateParameters 1],
        input_lin := Some (Linear 1 3 32),
        convs := Some [ARMAConv 2 32 32 1 1 False (1 / 2), ARMAConv 3 32 32 1 1 False (1 / 2)],
        output_lin := Some (Linear 4 32 2),
        optimizer := Some \<lparr>params = [1, 2, 3, 4, 0], adam_lr = 5 / 1000, weight_decay = 5 / 10000\<rparr>,
        next_id := 5\<rparr>"
proof -
  have two: "[0..<2] = [0, Suc 0]" by (simp add: upt_rec)
  show ?thesis
    unfolding example_model2_def example_select_round2
    by (simp add: init_model_snd build_layers_def Let_def example_hp_def example_round1_fields
      example_info_def example_data_def parameters_def two)
qed

lemma example_init_round2:
  "init_model example_env (example_round1\<lparr>tuner := tuner example_round1 @ [GenerateParameters 1],
                             hyperparameters := example_hp\<rparr>)
     (info_n_class (info example_round1)) (num_features example_data) = (Inr (), example_model2)"
proof -
  have "fst (init_model example_env (example_round1\<lparr>tuner := tuner example_round1 @ [GenerateParameters 1],
                             hyperparameters := example_hp\<rparr>) (info_n_class (info example_round1)) (num_features example_data)) = Inr ()"
    by (simp add: init_model_fst example_env_def example_hp_def)
  then show ?thesis
    by (simp add: example_model2_def example_select_round2 example_round1_fields prod_eq_iff)
qed

lemma example_forward2:
  "\<exists>t. forward (example_model2\<lparr>training := True\<rparr>) = Inr t"
  by (simp add: example_model2_eq forward_def forward_rest_def dropout_def example_hp_def)

lemma example_epoch_round2:
  "fst (epoch_eval example_env example_data 2 k example_model2) = Inr (1 / 2, [[3 / 5, 2 / 5]])"
proof -
  obtain t where t: "forward (example_model2\<lparr>training := True\<rparr>) = Inr t"
    using example_forward2 by blast
  have "fst (epoch_eval example_env example_data 2 k example_model2) =
      Inr (f1_score example_env [1, 1] [[1 / 4, 3 / 4], [2 / 3, 1 / 3]], [[3 / 5, 2 / 5]])"
    by (rule epoch_eval_ok[OF t, where preds="[[3 / 4, 1 / 4], [1 / 4, 3 / 4], [2 / 3, 1 / 3], [3 / 5, 2 / 5]]"])
       (simp_all add: example_env_def example_data_def mask_select_def)
  then show ?thesis
    by (simp add: example_env_def micro_f1_def class_indices_def)
qed

lemma example_model2_fields:
  "max_patience example_model2 = 100" "max_epochs example_model2 = 1600"
  "best_score example_model2 = 0" "hyperparameters example_model2 = example_hp"
  "tuner example_model2 = [UpdateSearchSpace (search_space example_info), GenerateParameters 1]"
  "best_preds example_model2 = None"
  by (simp_all add: example_model2_eq example_round1_fields)

lemma example_train_valid_round2:
  "train_valid example_env example_model2 example_data 2 =
     (Inr (1 / 2), example_model2\<lparr>current_round_best_preds := Some [[3 / 5, 2 / 5]], training := False\<rparr>)"
proof -
  have "train_valid_vars example_env example_model2 example_data 2 =
       (Inr \<lparr>patience = 0, best_valid_score = 1 / 2,
             valid_acc_meter = \<lparr>meter_val = 1 / 2, meter_avg = 1 / 2,
                                 meter_sum = of_nat (Suc (nat (max_patience example_model2))) * (1 / 2),
                                 meter_count = Suc (nat (max_patience example_model2))\<rparr>,
             epoch = nat (max_patience example_model2)\<rparr>,
        example_model2\<lparr>current_round_best_preds := Some [[3 / 5, 2 / 5]], training := False\<rparr>)"
    by (rule constant_run[OF example_epoch_round2]) (simp_all add: example_model2_fields)
  then show ?thesis
    by (simp add: train_valid_def)
qed

lemma example_trial_round2:
  "trial example_env example_round1 example_data 2 =
     (Inr (1 / 2),
      example_model2\<lparr>current_round_best_preds := Some [[3 / 5, 2 / 5]], training := False,
        tuner := [UpdateSearchSpace (search_space example_info), GenerateParameters 1,
                  ReceiveTrialResult 1 example_hp (1 / 2)],
        best_hp := Some example_hp\<rparr>)"
proof -
  have rc: "tpe_receive example_env t i hp v = None" for t i hp v
    by (simp add: example_env_def)
  show ?thesis
    using trial_success[OF example_select_round2 example_init_round2 example_train_valid_round2 rc]
    by (simp add: example_model2_fields)
qed

lemma example_round2_eq:
  "example_round2 =
      example_model2\<lparr>current_round_best_preds := Some [[3 / 5, 2 / 5]], training := False,
        tuner := [UpdateSearchSpace (search_space example_info), GenerateParameters 1,
                  ReceiveTrialResult 1 example_hp (1 / 2)],
        best_hp := Some example_hp\<rparr>"
  by (simp add: example_round2_def example_trial_round2)

section \<open>The best-result record across rounds\<close>

lemma reachable_best_score: "reachable e s \<Longrightarrow> best_score s = 0"
  by (induction rule: reachable.induct)
     (simp_all add: ARMA_init_def trial_frame init_model_frame train_valid_frame)

lemma try_body_Inr:
  assumes "try_body e s d r n f = (Inr v, s3)"
  shows "best_hp s3 = (if best_score s < v then Some (hyperparameters s) else best_hp s)"
proof -
  obtain res s2 where bt: "build_and_train e s d r n f = (res, s2)"
    by (cases "build_and_train e s d r n f")
  have fr: "best_score s2 = best_score s" "best_hp s2 = best_hp s" "hyperparameters s2 = hyperparameters s"
    using build_and_train_frame[of e s d r n f] bt by simp_all
  show ?thesis
    using assms bt fr
    by (auto simp: try_body_def receive_trial_result_def split: sum.splits if_splits option.splits)
qed

lemma try_body_Inl:
  assumes "try_body e s d r n f = (Inl x, s3)"
  shows "best_hp s3 = best_hp s"
proof -
  obtain res s2 where bt: "build_and_train e s d r n f = (res, s2)"
    by (cases "build_and_train e s d r n f")
  have fr: "best_hp s2 = best_hp s"
    using build_and_train_frame[of e s d r n f] bt by simp_all
  show ?thesis
    using assms bt fr
    by (auto simp: try_body_def receive_trial_result_def split: sum.splits if_splits option.splits)
qed

lemma except_RuntimeError_Inr:
  "except_RuntimeError e s1 r = (Inr v, s2) \<Longrightarrow> v = 0 \<and> best_hp s2 = best_hp s1"
  by (auto simp: except_RuntimeError_def receive_trial_result_def split: if_splits option.splits)

lemma trial_attempt_Inr:
  assumes "trial_attempt e s d r n f = (Inr v, s2)" and "best_score s = 0"
  shows "best_hp s2 = (if 0 < v then Some (hyperparameters s) else best_hp s)"
proof (cases "try_body e s d r n f")
  case (Pair res s1)
  show ?thesis
  proof (cases res)
    case (Inr w)
    with Pair assms(1) have "w = v" "s1 = s2" by (auto simp: trial_attempt_def)
    with Pair Inr try_body_Inr[of e s d r n f v s2] assms(2) show ?thesis by simp
  next
    case (Inl x)
    with Pair assms(1) have ex: "except_RuntimeError e s1 r = (Inr v, s2)"
      by (auto simp: trial_attempt_def split: if_splits)
    from except_RuntimeError_Inr[OF ex] try_body_Inl[of e s d r n f x s1] Pair Inl
    show ?thesis by simp
  qed
qed

lemma trial_Inr:
  assumes "trial e s d r = (Inr v, s2)" and "best_score s = 0"
  shows "best_hp s2 = (if 0 < v then Some (hyperparameters s2) else best_hp s)"
proof -
  obtain res s0 where sel: "select_config e s r = (res, s0)"
    by (cases "select_config e s r")
  have fr: "best_score s0 = best_score s" "best_hp s0 = best_hp s"
    using select_config_frame[of e s r] sel by simp_all
  from assms(1) sel have ta: "trial_attempt e s0 d r (info_n_class (info s)) (num_features d) = (Inr v, s2)"
    by (auto simp: trial_def Let_def split: sum.splits)
  have "hyperparameters s2 = hyperparameters s0"
    using trial_attempt_frame(3)[of e s0 d r "info_n_class (info s)" "num_features d"] ta by simp
  with trial_attempt_Inr[OF ta] fr assms(2) show ?thesis by simp
qed

section \<open>Failing rounds of the example\<close>

lemma example_round2_fields:
  "info example_round2 = example_info"
  "best_score example_round2 = 0"
  "best_hp example_round2 = Some example_hp"
  "best_preds example_round2 = None"
  "tuner example_round2 = [UpdateSearchSpace (search_space example_info), GenerateParameters 1,
                           ReceiveTrialResult 1 example_hp (1 / 2)]"
  "hyperparameters example_round2 = example_hp"
  by (simp_all add: example_round2_eq example_model2_eq example_round1_fields)

lemma train_valid_first_epoch_raises:
  assumes "0 < max_epochs s" and "epoch_eval e d r 0 s = (Inl x, s1)"
  shows "train_valid e s d r = (Inl x, s1)"
proof -
  have "[0..<nat (max_epochs s)] = 0 # [Suc 0..<nat (max_epochs s)]"
    using assms(1) by (simp add: upt_conv_Cons)
  then show ?thesis
    using assms(2) by (simp add: train_valid_def train_valid_vars_def epochs_upto_def)
qed

lemma is_RuntimeError_iff: "is_RuntimeError x = (\<exists>m. x = RuntimeError m)"
  by (cases x) simp_all

lemma example_init_short_mask:
  "init_model example_env (ARMA_init example_info) (info_n_class (info (ARMA_init example_info)))
     (num_features short_mask_data) = (Inr (), example_model)"
  using example_init_round1 by (simp add: short_mask_data_def)

lemma example_train_valid_short_mask:
  "train_valid example_env example_model short_mask_data 1 =
     (Inl IndexError, example_model\<lparr>training := False\<rparr>)"
proof -
  have "epoch_eval example_env short_mask_data 1 0 example_model =
      (Inl IndexError, example_model\<lparr>training := False\<rparr>)"
    by (simp add: epoch_eval_def Let_def example_forward example_env_def short_mask_data_def
      example_data_def mask_select_def)
  then show ?thesis
    by (intro train_valid_first_epoch_raises) (simp_all add: example_model_fields)
qed

lemma mismatch_init:
  "init_model mismatch_env (ARMA_init example_info) (info_n_class (info (ARMA_init example_info)))
     (num_features example_data) = (Inr (), example_model)"
proof -
  have "fst (init_model mismatch_env (ARMA_init example_info) (info_n_class (info (ARMA_init example_info)))
     (num_features example_data)) = Inr ()"
    by (simp add: init_model_fst mismatch_env_def example_env_def ARMA_init_def
        initial_hyperparameters_def example_info_def)
  moreover have "snd (init_model mismatch_env (ARMA_init example_info) (info_n_class (info (ARMA_init example_info)))
     (num_features example_data)) = example_model"
    unfolding example_model_def init_model_snd by (simp add: ARMA_init_def)
  ultimately show ?thesis by (simp add: prod_eq_iff)
qed

lemma mismatch_train_valid:
  "train_valid mismatch_env example_model example_data 1 =
     (Inl (RuntimeError ''size mismatch''), example_model\<lparr>training := True\<rparr>)"
proof -
  have "epoch_eval mismatch_env example_data 1 0 example_model =
      (Inl (RuntimeError ''size mismatch''), example_model\<lparr>training := True\<rparr>)"
    by (simp add: epoch_eval_def Let_def example_forward mismatch_env_def)
  then show ?thesis
    by (intro train_valid_first_epoch_raises) (simp_all add: example_model_fields)
qed

section \<open>Which layers a call of \<^verbatim>\<open>init_model\<close> creates\<close>

lemma tensor_layers_foldl:
  "tensor_layers (foldl (\<lambda>t conv. ReluT (ConvT conv t ed)) x cs) = tensor_layers x @ cs"
  by (induction cs arbitrary: x) simp_all

lemma forward_layers:
  assumes "forward s = Inr t"
  shows "if use_linear (hyperparameters s)
         then \<exists>l cs l2. input_lin s = Some l \<and> convs s = Some cs \<and> output_lin s = Some l2 \<and>
                         tensor_layers t = l # cs @ [l2]
         else if num_layers (hyperparameters s) = 1
         then \<exists>c. conv1 s = Some c \<and> tensor_layers t = [c]
         else \<exists>c cs c2. conv1 s = Some c \<and> convs s = Some cs \<and> conv2 s = Some c2 \<and>
                         tensor_layers t = c # cs @ [c2]"
  using assms
  by (auto simp: forward_def forward_rest_def dropout_def Let_def tensor_layers_foldl
      split: option.splits sum.splits if_splits)

lemma parameters_set:
  "set (parameters s) =
     layer_id ` (set_option (input_lin s) \<union> (case convs s of None \<Rightarrow> {} | Some cs \<Rightarrow> set cs) \<union>
                 set_option (output_lin s) \<union> set_option (conv1 s) \<union> set_option (conv2 s))"
  by (auto simp: parameters_def split: option.splits)

lemma build_layers_linear:
  assumes "use_linear (hyperparameters s)"
  shows "\<exists>h k. input_lin (build_layers s n f) = Some (Linear (next_id s) f h) \<and>
           convs (build_layers s n f) =
             Some (map (\<lambda>j. ARMAConv (next_id s + 1 + j) h h (num_stacks (hyperparameters s))
                               (conv_layers (hyperparameters s)) False (dropout_rate (hyperparameters s)))
                     [0..<k]) \<and>
           output_lin (build_layers s n f) = Some (Linear (next_id s + 1 + k) h n) \<and>
           next_id (build_layers s n f) = next_id s + 2 + k \<and>
           conv1 (build_layers s n f) = conv1 s \<and> conv2 (build_layers s n f) = conv2 s"
  using assms by (simp add: build_layers_def Let_def)

lemma build_layers_single:
  assumes "\<not> use_linear (hyperparameters s)" and "num_layers (hyperparameters s) = 1"
  shows "conv1 (build_layers s n f) =
           Some (ARMAConv (next_id s) f n (num_stacks (hyperparameters s))
                   (conv_layers (hyperparameters s)) False (dropout_rate (hyperparameters s))) \<and>
         next_id (build_layers s n f) = next_id s + 1 \<and>
         input_lin (build_layers s n f) = input_lin s \<and> convs (build_layers s n f) = convs s \<and>
         output_lin (build_layers s n f) = output_lin s \<and> conv2 (build_layers s n f) = conv2 s"
  using assms by (simp add: build_layers_def Let_def)

lemma build_layers_stack:
  assumes "\<not> use_linear (hyperparameters s)" and "num_layers (hyperparameters s) \<noteq> 1"
  shows "\<exists>h k. conv1 (build_layers s n f) =
             Some (ARMAConv (next_id s) f h (num_stacks (hyperparameters s))
                     (conv_layers (hyperparameters s)) False (dropout_rate (hyperparameters s))) \<and>
           convs (build_layers s n f) =
             Some (map (\<lambda>j. ARMAConv (next_id s + 1 + j) h h (num_stacks (hyperparameters s))
                               (conv_layers (hyperparameters s)) False (dropout_rate (hyperparameters s)))
                     [0..<k]) \<and>
           conv2 (build_layers s n f) =
             Some (ARMAConv (next_id s + 1 + k) h n (num_stacks (hyperparameters s))
                     (conv_layers (hyperparameters s)) False (dropout_rate (hyperparameters s))) \<and>
           next_id (build_layers s n f) = next_id s + 2 + k \<and>
           input_lin (build_layers s n f) = input_lin s \<and>
           output_lin (build_layers s n f) = output_lin s"
  using assms by (simp add: build_layers_def Let_def)

lemma build_layers_wf:
  assumes wf: "\<forall>p \<in> set (parameters s). p < next_id s"
  shows "\<forall>p \<in> set (parameters (build_layers s n f)). p < next_id (build_layers s n f)"
proof (cases "use_linear (hyperparameters s)")
  case True
  from build_layers_linear[OF True, of n f] obtain h k where
    "input_lin (build_layers s n f) = Some (Linear (next_id s) f h)"
    "convs (build_layers s n f) =
             Some (map (\<lambda>j. ARMAConv (next_id s + 1 + j) h h (num_stacks (hyperparameters s))
                               (conv_layers (hyperparameters s)) False (dropout_rate (hyperparameters s)))
                     [0..<k])"
    "output_lin (build_layers s n f) = Some (Linear (next_id s + 1 + k) h n)"
    "next_id (build_layers s n f) = next_id s + 2 + k"
    "conv1 (build_layers s n f) = conv1 s" "conv2 (build_layers s n f) = conv2 s"
    by blast
  then show ?thesis
    using wf by (fastforce simp: parameters_set)
next
  case False
  show ?thesis
  proof (cases "num_layers (hyperparameters s) = 1")
    case True
    note bl = build_layers_single[OF False True, of n f]
    have sub: "set (parameters (build_layers s n f)) \<subseteq> insert (next_id s) (set (parameters s))"
      unfolding parameters_set using bl by auto
    have nx: "next_id (build_layers s n f) = Suc (next_id s)"
      using bl by simp
    show ?thesis
    proof
      fix p assume "p \<in> set (parameters (build_layers s n f))"
      with sub have "p = next_id s \<or> p \<in> set (parameters s)" by auto
      with wf show "p < next_id (build_layers s n f)"
        unfolding nx by (auto simp: less_Suc_eq)
    qed
  next
    case ne: False
    from build_layers_stack[OF False ne, of n f] obtain h k where
      "conv1 (build_layers s n f) =
             Some (ARMAConv (next_id s) f h (num_stacks (hyperparameters s))
                     (conv_layers (hyperparameters s)) False (dropout_rate (hyperparameters s)))"
      "convs (build_layers s n f) =
             Some (map (\<lambda>j. ARMAConv (next_id s + 1 + j) h h (num_stacks (hyperparameters s))
                               (conv_layers (hyperparameters s)) False (dropout_rate (hyperparameters s)))
                     [0..<k])"
      "conv2 (build_layers s n f) =
             Some (ARMAConv (next_id s + 1 + k) h n (num_stacks (hyperparameters s))
                     (conv_layers (hyperparameters s)) False (dropout_rate (hyperparameters s)))"
      "next_id (build_layers s n f) = next_id s + 2 + k"
      "input_lin (build_layers s n f) = input_lin s"
      "output_lin (build_layers s n f) = output_lin s"
      by blast
    then show ?thesis
      using wf by (fastforce simp: parameters_set)
  qed
qed

lemma build_layers_forward_fresh:
  assumes wf: "\<forall>p \<in> set (parameters s). p < next_id s"
    and fw: "forward ((build_layers s n f)\<lparr>optimizer := opt, training := b\<rparr>) = Inr t"
    and l: "l \<in> set (tensor_layers t)"
  shows "layer_id l \<notin> set (parameters s) \<and> layer_id l \<in> set (parameters (build_layers s n f)) \<and>
         next_id s \<le> layer_id l"
proof -
  let ?s1 = "build_layers s n f"
  let ?s2 = "?s1\<lparr>optimizer := opt, training := b\<rparr>"
  have hp: "hyperparameters ?s2 = hyperparameters s"
    by (simp add: build_layers_frame)
  have ge: "next_id s \<le> layer_id l \<and> layer_id l \<in> set (parameters ?s1)"
  proof (cases "use_linear (hyperparameters s)")
    case True
    from forward_layers[OF fw] True hp obtain l1 cs l2 where
      a: "input_lin ?s1 = Some l1" "convs ?s1 = Some cs" "output_lin ?s1 = Some l2"
      "tensor_layers t = l1 # cs @ [l2]"
      by auto
    from build_layers_linear[OF True, of n f] a l show ?thesis
      by (fastforce simp: parameters_set)
  next
    case False
    show ?thesis
    proof (cases "num_layers (hyperparameters s) = 1")
      case True
      from forward_layers[OF fw] False True hp obtain c where
        a: "conv1 ?s1 = Some c" "tensor_layers t = [c]"
        by auto
      from build_layers_single[OF False True, of n f] a l show ?thesis
        by (fastforce simp: parameters_set)
    next
      case ne: False
      from forward_layers[OF fw] False ne hp obtain c cs c2 where
        a: "conv1 ?s1 = Some c" "convs ?s1 = Some cs" "conv2 ?s1 = Some c2"
        "tensor_layers t = c # cs @ [c2]"
        by auto
      from build_layers_stack[OF False ne, of n f] a l show ?thesis
        by (fastforce simp: parameters_set)
    qed
  qed
  with wf show ?thesis by fastforce
qed

lemma example_select2_snd:
  "snd (select_config example_env example_round1 2) =
     example_round1\<lparr>tuner := tuner example_round1 @ [GenerateParameters 1],
                    hyperparameters := example_hp\<rparr>"
  by (simp add: example_select_round2)

section \<open>The cached predictions\<close>





section \<open>A round with a lower score replaces the best configuration\<close>

text \<open>
  Claim C1 says that the best-result record is updated only when a round beats the best
  score of all prior rounds. The code compares with \<^verbatim>\<open>best_score\<close>, which it never
  updates: in the example, round 1 scores 1 and stores its configuration, round 2
  scores 1/2 and still replaces it, while \<^verbatim>\<open>best_score\<close> stays 0 and \<^verbatim>\<open>best_preds\<close> stays
  \<^verbatim>\<open>None\<close>.
\<close>

theorem lower_score_overwrites_best_hp:
  "fst (trial example_env (ARMA_init example_info) example_data 1) = Inr 1 \<and>
   best_hp example_round1 = Some (initial_hyperparameters example_info) \<and>
   fst (trial example_env example_round1 example_data 2) = Inr (1 / 2) \<and>
   best_hp example_round2 = Some example_hp \<and>
   best_score example_round2 = 0 \<and>
   best_preds example_round2 = None"
  by (simp add: example_trial_round1 example_trial_round2 example_round1_fields
      example_round2_eq example_model2_fields)

section \<open>What \<^verbatim>\<open>predict\<close> returns\<close>




section \<open>A round that runs out of memory\<close>

text \<open>
  Claim C3. When building or training the model of round \<open>r\<close> raises an out-of-memory
  error, a \<^verbatim>\<open>RuntimeError\<close>, and the tuner accepts the report, \<^verbatim>\<open>trial\<close> returns 0. Its
  final state is the state \<open>s1\<close> in which the error was raised, with the call
  \<^verbatim>\<open>receive_trial_result(r - 1, hp, 0)\<close> added to the tuner's calls when \<open>r > 1\<close> and with
  nothing added when \<open>r = 1\<close>: one model was built and no second attempt was made, the
  configuration was not changed, and \<^verbatim>\<open>best_score\<close>, \<^verbatim>\<open>best_hp\<close> and \<^verbatim>\<open>best_preds\<close> are
  those before the round.
\<close>

theorem trial_out_of_memory:
  assumes sel: "select_config e s r = (Inr (), s0)"
    and oom: "build_and_train e s0 d r (info_n_class (info s)) (num_features d) =
                (Inl (RuntimeError m), s1)"
    and acc: "1 < r \<longrightarrow> tpe_receive e (tuner s1) (r - 1) (hyperparameters s1) 0 = None"
  shows "trial e s d r =
           (Inr 0, if 1 < r
                   then s1\<lparr>tuner := tuner s1 @ [ReceiveTrialResult (r - 1) (hyperparameters s0) 0]\<rparr>
                   else s1) \<and>
         tuner (snd (trial e s d r)) =
           (if 1 < r
            then tuner s @ [GenerateParameters (r - 1), ReceiveTrialResult (r - 1) (hyperparameters s0) 0]
            else tuner s) \<and>
         best_score (snd (trial e s d r)) = best_score s \<and>
         best_hp (snd (trial e s d r)) = best_hp s \<and>
         best_preds (snd (trial e s d r)) = best_preds s \<and>
         hyperparameters (snd (trial e s d r)) = hyperparameters s0 \<and>
         next_id (snd (trial e s d r)) =
           next_id (build_layers s0 (info_n_class (info s)) (num_features d))"
proof -
  let ?n = "info_n_class (info s)" and ?f = "num_features d"
  have fr1: "tuner s1 = tuner s0" "hyperparameters s1 = hyperparameters s0"
    "best_score s1 = best_score s0" "best_hp s1 = best_hp s0" "best_preds s1 = best_preds s0"
    "next_id s1 = next_id (build_layers s0 ?n ?f)"
    using build_and_train_frame[of e s0 d r ?n ?f] oom by simp_all
  have fr0: "best_score s0 = best_score s" "best_hp s0 = best_hp s" "best_preds s0 = best_preds s"
    using select_config_frame[of e s r] sel by simp_all
  have t0: "tuner s0 = (if 1 < r then tuner s @ [GenerateParameters (r - 1)] else tuner s)"
    using sel by (auto simp: select_config_def generate_parameters_def split: sum.splits if_splits)
  have tb: "try_body e s0 d r ?n ?f = (Inl (RuntimeError m), s1)"
    using oom by (simp add: try_body_def)
  have ta: "trial_attempt e s0 d r ?n ?f = except_RuntimeError e s1 r"
    using tb by (simp add: trial_attempt_def)
  have ex: "except_RuntimeError e s1 r =
      (Inr 0, if 1 < r
              then s1\<lparr>tuner := tuner s1 @ [ReceiveTrialResult (r - 1) (hyperparameters s0) 0]\<rparr>
              else s1)"
    using acc fr1(2) by (simp add: except_RuntimeError_def receive_trial_result_def)
  have tr: "trial e s d r =
      (Inr 0, if 1 < r
              then s1\<lparr>tuner := tuner s1 @ [ReceiveTrialResult (r - 1) (hyperparameters s0) 0]\<rparr>
              else s1)"
    using sel ta ex by (simp add: trial_def Let_def)
  show ?thesis
    unfolding tr using fr1 fr0 t0 by simp
qed


theorem trial_out_of_memory_witness:
  "select_config example_env example_round2 3 =
     (Inr (), example_round2\<lparr>tuner := tuner example_round2 @ [GenerateParameters 2],
                             hyperparameters := example_hp\<lparr>hidden := 7\<rparr>\<rparr>) \<and>
   fst (build_and_train example_env
          (example_round2\<lparr>tuner := tuner example_round2 @ [GenerateParameters 2],
                           hyperparameters := example_hp\<lparr>hidden := 7\<rparr>\<rparr>)
          example_data 3 2 3) = Inl (RuntimeError ''CUDA out of memory'') \<and>
   fst (trial example_env example_round2 example_data 3) = Inr 0 \<and>
   tuner (snd (trial example_env example_round2 example_data 3)) =
     [UpdateSearchSpace (search_space example_info), GenerateParameters 1,
      ReceiveTrialResult 1 example_hp (1 / 2), GenerateParameters 2,
      ReceiveTrialResult 2 (example_hp\<lparr>hidden := 7\<rparr>) 0] \<and>
   best_hp (snd (trial example_env example_round2 example_data 3)) = Some example_hp \<and>
   best_score (snd (trial example_env example_round2 example_data 3)) = 0"
proof -
  let ?s0 = "example_round2\<lparr>tuner := tuner example_round2 @ [GenerateParameters 2],
                             hyperparameters := example_hp\<lparr>hidden := 7\<rparr>\<rparr>"
  have sel: "select_config example_env example_round2 3 = (Inr (), ?s0)"
    by (simp add: select_config_def generate_parameters_def example_env_def)
  have nf: "info_n_class (info example_round2) = 2" "num_features example_data = 3"
    by (simp_all add: example_round2_fields example_info_def example_data_def)
  have fi: "fst (init_model example_env ?s0 2 3) = Inl (RuntimeError ''CUDA out of memory'')"
    by (simp add: init_model_fst example_env_def example_hp_def)
  have bt: "build_and_train example_env ?s0 example_data 3 2 3 =
      (Inl (RuntimeError ''CUDA out of memory''), snd (init_model example_env ?s0 2 3))"
    using fi by (cases "init_model example_env ?s0 2 3") (simp add: build_and_train_def)
  have oom: "build_and_train example_env ?s0 example_data 3 (info_n_class (info example_round2))
      (num_features example_data) =
      (Inl (RuntimeError ''CUDA out of memory''), snd (init_model example_env ?s0 2 3))"
    unfolding nf by (rule bt)
  have acc: "1 < (3::int) \<longrightarrow> tpe_receive example_env (tuner (snd (init_model example_env ?s0 2 3))) (3 - 1)
      (hyperparameters (snd (init_model example_env ?s0 2 3))) 0 = None"
    by (simp add: example_env_def)
  note T = trial_out_of_memory[OF sel oom acc]
  have a: "fst (trial example_env example_round2 example_data 3) = Inr 0"
    using T[THEN conjunct1] by simp
  have b: "tuner (snd (trial example_env example_round2 example_data 3)) =
     [UpdateSearchSpace (search_space example_info), GenerateParameters 1,
      ReceiveTrialResult 1 example_hp (1 / 2), GenerateParameters 2,
      ReceiveTrialResult 2 (example_hp\<lparr>hidden := 7\<rparr>) 0]"
    using T[THEN conjunct2, THEN conjunct1] by (simp add: example_round2_fields)
  have c: "best_hp (snd (trial example_env example_round2 example_data 3)) = Some example_hp"
    using T[THEN conjunct2, THEN conjunct2, THEN conjunct2, THEN conjunct1]
    by (simp add: example_round2_fields)
  have d: "best_score (snd (trial example_env example_round2 example_data 3)) = 0"
    using T[THEN conjunct2, THEN conjunct2, THEN conjunct1]
    by (simp add: example_round2_fields)
  have bt': "fst (build_and_train example_env ?s0 example_data 3 2 3) =
      Inl (RuntimeError ''CUDA out of memory'')"
    using bt by simp
  show ?thesis
    by (intro conjI sel bt' a b c d)
qed

section \<open>Which exceptions a round catches\<close>

text \<open>
  Claim C4, as stated, fails: a \<^verbatim>\<open>RuntimeError\<close> that is not an out-of-memory error, here
  the size mismatch the engine reports in the first epoch, is caught as well, and
  \<^verbatim>\<open>trial\<close> returns 0 instead of letting it pass.
\<close>

theorem non_oom_RuntimeError_is_caught:
  "fst (train_valid mismatch_env example_model example_data 1) = Inl (RuntimeError ''size mismatch'') \<and>
   fst (trial mismatch_env (ARMA_init example_info) example_data 1) = Inr 0 \<and>
   fst (trial mismatch_env (ARMA_init example_info) example_data 1) \<noteq> Inl (RuntimeError ''size mismatch'')"
proof -
  have "trial mismatch_env (ARMA_init example_info) example_data 1 =
      (Inr 0, example_model\<lparr>training := True\<rparr>)"
    by (simp add: trial_def Let_def select_config_def trial_attempt_def try_body_def
      build_and_train_def mismatch_init mismatch_train_valid except_RuntimeError_def)
  then show ?thesis
    by (simp add: mismatch_train_valid)
qed

text \<open>
  Claim C4, amended. An exception that \<^verbatim>\<open>generate_parameters\<close> raises, of whatever class,
  leaves \<^verbatim>\<open>trial\<close>. An exception raised inside the \<^verbatim>\<open>try\<close> (by \<^verbatim>\<open>init_model\<close>,
  \<^verbatim>\<open>train_valid\<close> or \<^verbatim>\<open>receive_trial_result\<close>) is caught exactly when it is a
  \<^verbatim>\<open>RuntimeError\<close>, out of memory or not: then the handler runs, and \<^verbatim>\<open>trial\<close> returns
  0 when the tuner accepts the report. An exception of any other class leaves \<^verbatim>\<open>trial\<close>.
\<close>

theorem trial_catches_RuntimeError:
  "(select_config e s r = (Inl x, s0) \<longrightarrow> trial e s d r = (Inl x, s0)) \<and>
   (select_config e s r = (Inr (), s0) \<longrightarrow>
    try_body e s0 d r (info_n_class (info s)) (num_features d) = (Inl x, s1) \<longrightarrow>
      trial e s d r = (if \<exists>m. x = RuntimeError m then except_RuntimeError e s1 r else (Inl x, s1)) \<and>
      ((\<exists>m. x = RuntimeError m) \<longrightarrow>
         (1 < r \<longrightarrow> tpe_receive e (tuner s1) (r - 1) (hyperparameters s1) 0 = None) \<longrightarrow>
         fst (trial e s d r) = Inr 0))"
proof -
  have a: "select_config e s r = (Inl x, s0) \<Longrightarrow> trial e s d r = (Inl x, s0)"
    by (simp add: trial_def Let_def)
  have b: "trial e s d r = (if \<exists>m. x = RuntimeError m then except_RuntimeError e s1 r else (Inl x, s1))"
    if "select_config e s r = (Inr (), s0)"
      and "try_body e s0 d r (info_n_class (info s)) (num_features d) = (Inl x, s1)"
    using that by (simp add: trial_def Let_def trial_attempt_def is_RuntimeError_iff)
  have c: "fst (except_RuntimeError e s1 r) = Inr 0"
    if "1 < r \<longrightarrow> tpe_receive e (tuner s1) (r - 1) (hyperparameters s1) 0 = None"
    using that by (simp add: except_RuntimeError_def receive_trial_result_def)
  from a b c show ?thesis by auto
qed

theorem trial_catches_RuntimeError_witness:
  "select_config example_env (ARMA_init example_info) 1 = (Inr (), ARMA_init example_info) \<and>
   try_body example_env (ARMA_init example_info) short_mask_data 1
     (info_n_class (info (ARMA_init example_info))) (num_features short_mask_data) =
     (Inl IndexError, example_model\<lparr>training := False\<rparr>) \<and>
   trial example_env (ARMA_init example_info) short_mask_data 1 =
     (Inl IndexError, example_model\<lparr>training := False\<rparr>)"
proof -
  have sel: "select_config example_env (ARMA_init example_info) 1 = (Inr (), ARMA_init example_info)"
    by (simp add: select_config_def)
  have tb: "try_body example_env (ARMA_init example_info) short_mask_data 1
     (info_n_class (info (ARMA_init example_info))) (num_features short_mask_data) =
     (Inl IndexError, example_model\<lparr>training := False\<rparr>)"
    by (simp add: try_body_def build_and_train_def example_init_short_mask example_train_valid_short_mask)
  have "trial example_env (ARMA_init example_info) short_mask_data 1 =
      (if \<exists>m. IndexError = RuntimeError m
       then except_RuntimeError example_env (example_model\<lparr>training := False\<rparr>) 1
       else (Inl IndexError, example_model\<lparr>training := False\<rparr>))"
    using trial_catches_RuntimeError[THEN conjunct2, rule_format, OF sel tb, THEN conjunct1] .
  then have tr: "trial example_env (ARMA_init example_info) short_mask_data 1 =
     (Inl IndexError, example_model\<lparr>training := False\<rparr>)"
    by simp
  show ?thesis by (intro conjI sel tb tr)
qed

section \<open>The running average gates early stopping\<close>







section \<open>Patience and termination of the training loop\<close>





section \<open>The forward pass of a one-layer configuration\<close>

text \<open>
  Claim C7. With \<^verbatim>\<open>num_layers == 1\<close> and \<^verbatim>\<open>use_linear == False\<close> the forward pass returns
  right after one graph convolution followed by ReLU: its result is \<open>ReluT (ConvT c X ed)\<close>
  for the layer \<open>c\<close> held by \<^verbatim>\<open>conv1\<close> and the (possibly edge-dropped) edges \<open>ed\<close>. The
  result holds one convolution, no feature dropout and no linear projection, and it
  does not depend on \<^verbatim>\<open>convs\<close>, \<^verbatim>\<open>conv2\<close>, \<^verbatim>\<open>input_lin\<close> or \<^verbatim>\<open>output_lin\<close>. The only
  ways not to return are the \<^verbatim>\<open>ValueError\<close> of \<^verbatim>\<open>dropout_adj\<close> and a missing \<^verbatim>\<open>conv1\<close>.
\<close>

theorem forward_single_conv:
  assumes "num_layers (hyperparameters s) = 1" and "\<not> use_linear (hyperparameters s)"
  shows "forward s =
           (case (case dropedge_rate (hyperparameters s) of
                    None \<Rightarrow> Inr Edges
                  | Some p \<Rightarrow> dropout_adj p (training s)) of
              Inl err \<Rightarrow> Inl err
            | Inr ed \<Rightarrow>
               (case conv1 s of
                  None \<Rightarrow> Inl AttributeError
                | Some c \<Rightarrow> Inr (ReluT (ConvT c X ed)))) \<and>
         (case forward s of
            Inl err \<Rightarrow> True
          | Inr t \<Rightarrow> n_convs t = 1 \<and> n_dropouts t = 0 \<and> n_linears t = 0 \<and>
                     map Some (tensor_layers t) = [conv1 s]) \<and>
         forward (s\<lparr>input_lin := l1, convs := cs, output_lin := l2, conv2 := c2\<rparr>) = forward s"
  using assms
  by (auto simp: forward_def Let_def split: sum.splits option.splits)

theorem forward_single_conv_witness:
  "num_layers (hyperparameters (snd (init_model example_env (ARMA_init example_info) 2 3))) = 1 \<and>
   use_linear (hyperparameters (snd (init_model example_env (ARMA_init example_info) 2 3))) = False \<and>
   forward (snd (init_model example_env (ARMA_init example_info) 2 3)) =
     Inr (ReluT (ConvT (ARMAConv 0 3 2 1 1 False (1 / 2)) X Edges))"
proof -
  let ?s = "snd (init_model example_env (ARMA_init example_info) 2 3)"
  have h: "hyperparameters ?s = initial_hyperparameters example_info"
    by (simp add: init_model_def build_layers_def Let_def ARMA_init_def example_env_def split: option.splits)
  have n: "num_layers (hyperparameters ?s) = 1"
    unfolding h by (simp add: initial_hyperparameters_def example_info_def)
  have u: "\<not> use_linear (hyperparameters ?s)"
    unfolding h by (simp add: initial_hyperparameters_def example_info_def)
  have c: "conv1 ?s = Some (ARMAConv 0 3 2 1 1 False (1 / 2))"
    by (simp add: init_model_def build_layers_def Let_def ARMA_init_def example_env_def
        initial_hyperparameters_def example_info_def split: option.splits)
  have dr: "dropedge_rate (hyperparameters ?s) = None"
    unfolding h by (simp add: initial_hyperparameters_def example_info_def)
  from forward_single_conv[OF n u] c dr n u show ?thesis
    by simp
qed

section \<open>The configuration of a round\<close>



section \<open>What \<^verbatim>\<open>init_model\<close> rebuilds\<close>

text \<open>
  Claim C9, as stated, fails: the convolution that round 1 of the example registered as
  \<^verbatim>\<open>conv1\<close>, with the parameters 0, is still registered after \<^verbatim>\<open>init_model\<close> of round 2,
  whose configuration uses linear layers, and its parameters are among those of the new
  optimizer.
\<close>

theorem stale_layer_in_new_optimizer:
  "parameters example_model = [0] \<and>
   conv1 example_model = Some (ARMAConv 0 3 2 1 1 False (1 / 2)) \<and>
   conv1 example_model2 = Some (ARMAConv 0 3 2 1 1 False (1 / 2)) \<and>
   parameters example_model2 = [1, 2, 3, 4, 0] \<and>
   optimizer example_model2 =
     Some \<lparr>params = [1, 2, 3, 4, 0], adam_lr = 5 / 1000, weight_decay = 5 / 10000\<rparr>"
proof -
  have a: "parameters example_model = [0]" "conv1 example_model = Some (ARMAConv 0 3 2 1 1 False (1 / 2))"
    by (simp_all add: parameters_def example_model_eq ARMA_init_def)
  have b: "conv1 example_model2 = Some (ARMAConv 0 3 2 1 1 False (1 / 2))"
    "optimizer example_model2 =
       Some \<lparr>params = [1, 2, 3, 4, 0], adam_lr = 5 / 1000, weight_decay = 5 / 10000\<rparr>"
    by (simp_all add: example_model2_eq example_round1_fields)
  have c: "parameters example_model2 = [1, 2, 3, 4, 0]"
    by (simp add: parameters_def example_model2_eq example_round1_fields)
  show ?thesis by (intro conjI a b c)
qed

text \<open>
  Claim C9, amended. In a state whose parameters were all allocated before, \<^verbatim>\<open>init_model\<close>
  allocates a new optimizer over \<^verbatim>\<open>self.parameters()\<close>, and every layer that the forward
  pass then goes through is newly allocated: none of its parameters existed before the
  call. The attributes of the branches that the configuration does not select are
  left as they are, so layers of an earlier round that they hold stay registered and
  are parameters of the new optimizer.
\<close>

theorem init_model_fresh_layers:
  assumes wf: "\<forall>p \<in> set (parameters s). p < next_id s"
  shows "optimizer (snd (init_model e s n f)) =
           Some \<lparr>params = parameters (snd (init_model e s n f)),
                 adam_lr = lr (hyperparameters s), weight_decay = 5 / 10000\<rparr> \<and>
         (\<forall>p \<in> set (parameters (snd (init_model e s n f))). p < next_id (snd (init_model e s n f))) \<and>
         (\<forall>b t. forward ((snd (init_model e s n f))\<lparr>training := b\<rparr>) = Inr t \<longrightarrow>
            (\<forall>l \<in> set (tensor_layers t).
               layer_id l \<notin> set (parameters s) \<and>
               layer_id l \<in> set (parameters (snd (init_model e s n f))))) \<and>
         (use_linear (hyperparameters s) \<longrightarrow>
            conv1 (snd (init_model e s n f)) = conv1 s \<and>
            conv2 (snd (init_model e s n f)) = conv2 s) \<and>
         (\<not> use_linear (hyperparameters s) \<and> num_layers (hyperparameters s) = 1 \<longrightarrow>
            input_lin (snd (init_model e s n f)) = input_lin s \<and>
            convs (snd (init_model e s n f)) = convs s \<and>
            output_lin (snd (init_model e s n f)) = output_lin s \<and>
            conv2 (snd (init_model e s n f)) = conv2 s) \<and>
         (\<not> use_linear (hyperparameters s) \<and> num_layers (hyperparameters s) \<noteq> 1 \<longrightarrow>
            input_lin (snd (init_model e s n f)) = input_lin s \<and>
            output_lin (snd (init_model e s n f)) = output_lin s)"
proof -
  let ?s1 = "build_layers s n f"
  let ?opt = "Some \<lparr>params = parameters ?s1, adam_lr = lr (hyperparameters s), weight_decay = 5 / 10000\<rparr>"
  have sn: "snd (init_model e s n f) = ?s1\<lparr>optimizer := ?opt\<rparr>"
    by (rule init_model_snd)
  have par: "parameters (snd (init_model e s n f)) = parameters ?s1"
    unfolding sn by (rule parameters_optimizer)
  have a: "optimizer (snd (init_model e s n f)) =
           Some \<lparr>params = parameters (snd (init_model e s n f)),
                 adam_lr = lr (hyperparameters s), weight_decay = 5 / 10000\<rparr>"
    unfolding par unfolding sn by simp
  have b: "\<forall>p \<in> set (parameters (snd (init_model e s n f))). p < next_id (snd (init_model e s n f))"
    unfolding par init_model_frame using build_layers_wf[OF wf] .
  have c: "layer_id l \<notin> set (parameters s) \<and> layer_id l \<in> set (parameters (snd (init_model e s n f)))"
    if "forward ((snd (init_model e s n f))\<lparr>training := b\<rparr>) = Inr t" and "l \<in> set (tensor_layers t)"
    for b t l
    using build_layers_forward_fresh[OF wf that(1)[unfolded sn] that(2)] unfolding par by simp
  have d: "use_linear (hyperparameters s) \<Longrightarrow>
            conv1 (snd (init_model e s n f)) = conv1 s \<and>
            conv2 (snd (init_model e s n f)) = conv2 s"
    unfolding sn using build_layers_linear[of s n f] by auto
  have e1: "\<not> use_linear (hyperparameters s) \<and> num_layers (hyperparameters s) = 1 \<Longrightarrow>
            input_lin (snd (init_model e s n f)) = input_lin s \<and>
            convs (snd (init_model e s n f)) = convs s \<and>
            output_lin (snd (init_model e s n f)) = output_lin s \<and>
            conv2 (snd (init_model e s n f)) = conv2 s"
    unfolding sn using build_layers_single[of s n f] by auto
  have e2: "\<not> use_linear (hyperparameters s) \<and> num_layers (hyperparameters s) \<noteq> 1 \<Longrightarrow>
            input_lin (snd (init_model e s n f)) = input_lin s \<and>
            output_lin (snd (init_model e s n f)) = output_lin s"
    unfolding sn using build_layers_stack[of s n f] by auto
  from a b c d e1 e2 show ?thesis by blast
qed

theorem init_model_fresh_layers_witness:
  "parameters (snd (select_config example_env example_round1 2)) = [0] \<and>
   next_id (snd (select_config example_env example_round1 2)) = 1 \<and>
   example_model2 = snd (init_model example_env (snd (select_config example_env example_round1 2)) 2 3) \<and>
   optimizer example_model2 =
     Some \<lparr>params = parameters example_model2, adam_lr = 5 / 1000, weight_decay = 5 / 10000\<rparr> \<and>
   parameters example_model2 = [1, 2, 3, 4, 0] \<and>
   conv1 example_model2 = conv1 (snd (select_config example_env example_round1 2))"
proof -
  let ?s = "snd (select_config example_env example_round1 2)"
  have p: "parameters ?s = [0]"
    unfolding example_select2_snd
    by (simp add: parameters_def example_round1_eq example_model_eq ARMA_init_def)
  have nx: "next_id ?s = 1"
    unfolding example_select2_snd by (simp add: example_round1_fields)
  have wf: "\<forall>p \<in> set (parameters ?s). p < next_id ?s"
    unfolding p nx by simp
  have m2: "example_model2 = snd (init_model example_env ?s 2 3)"
    by (simp add: example_model2_def example_info_def example_data_def)
  have hp: "hyperparameters ?s = example_hp"
    unfolding example_select2_snd by simp
  note T = init_model_fresh_layers[OF wf, of example_env 2 3, folded m2, unfolded hp]
  have o: "optimizer example_model2 =
     Some \<lparr>params = parameters example_model2, adam_lr = 5 / 1000, weight_decay = 5 / 10000\<rparr>"
    using T[THEN conjunct1] by (simp add: example_hp_def)
  have ul: "use_linear example_hp" by (simp add: example_hp_def)
  have c: "conv1 example_model2 = conv1 ?s"
    using T[THEN conjunct2, THEN conjunct2, THEN conjunct2, THEN conjunct1, rule_format, OF ul]
    by simp
  have ps: "parameters example_model2 = [1, 2, 3, 4, 0]"
    by (simp add: parameters_def example_model2_eq example_round1_fields)
  show ?thesis by (intro conjI p nx m2 o ps c)
qed

section \<open>The best score is never written\<close>

text \<open>
  Claim C10. The constructor sets \<^verbatim>\<open>best_score\<close> to 0, and \<^verbatim>\<open>init_model\<close>, \<^verbatim>\<open>train_valid\<close> and
  \<^verbatim>\<open>trial\<close> leave it as it is (\<^verbatim>\<open>forward\<close> and \<^verbatim>\<open>predict\<close> return a value and no state). So
  in every state an adapter reaches it is 0, the guard \<^verbatim>\<open>val_score > self.best_score\<close>
  is \<^verbatim>\<open>val_score > 0\<close>, and a round that returns the score \<open>v\<close> stores its configuration
  as \<^verbatim>\<open>best_hp\<close> exactly when \<open>v > 0\<close>, whatever the earlier rounds scored.
\<close>

theorem best_score_never_written:
  "best_score (ARMA_init i) = 0 \<and>
   best_score (snd (init_model e s n f)) = best_score s \<and>
   best_score (snd (train_valid e s d r)) = best_score s \<and>
   best_score (snd (trial e s d r)) = best_score s \<and>
   (reachable e s \<longrightarrow>
      best_score s = 0 \<and>
      (\<forall>v s2. trial e s d r = (Inr v, s2) \<longrightarrow>
         (v > best_score s) = (v > 0) \<and>
         best_hp s2 = (if v > 0 then Some (hyperparameters s2) else best_hp s)))"
proof -
  have "best_score (ARMA_init i) = 0" by (simp add: ARMA_init_def)
  moreover have "reachable e s \<Longrightarrow> trial e s d r = (Inr v, s2) \<Longrightarrow>
      (v > best_score s) = (v > 0) \<and>
      best_hp s2 = (if v > 0 then Some (hyperparameters s2) else best_hp s)" for v s2
    using trial_Inr[of e s d r v s2] reachable_best_score[of e s] by simp
  ultimately show ?thesis
    using reachable_best_score[of e s]
    by (simp add: init_model_frame train_valid_frame trial_frame)
qed

theorem best_score_never_written_witness:
  "reachable example_env example_round1 \<and>
   best_score example_round1 = 0 \<and>
   trial example_env example_round1 example_data 2 = (Inr (1 / 2), example_round2) \<and>
   best_hp example_round1 = Some (initial_hyperparameters example_info) \<and>
   best_hp example_round2 = Some (hyperparameters example_round2) \<and>
   hyperparameters example_round2 = example_hp"
proof -
  have re: "reachable example_env example_round1"
    unfolding example_round1_def by (intro reachable.after_trial reachable.constructed)
  have tr: "trial example_env example_round1 example_data 2 = (Inr (1 / 2), example_round2)"
    by (simp add: example_round2_eq example_trial_round2)
  note T = best_score_never_written[of _ example_env example_round1 _ _ example_data 2,
      THEN conjunct2, THEN conjunct2, THEN conjunct2, THEN conjunct2, rule_format, OF re]
  have b0: "best_score example_round1 = 0"
    using T[THEN conjunct1] .
  have "best_hp example_round2 =
      (if 1 / 2 > (0::rat) then Some (hyperparameters example_round2) else best_hp example_round1)"
    using T[THEN conjunct2, rule_format, OF tr, THEN conjunct2] .
  then have bh: "best_hp example_round2 = Some (hyperparameters example_round2)"
    by simp
  have hp: "hyperparameters example_round2 = example_hp"
    by (simp add: example_round2_eq example_model2_fields)
  show ?thesis
    by (intro conjI re b0 tr example_round1_fields(6) bh hp)
qed

end
